theory Spec2Isabelle
  imports Complex_Main "HOL-Library.AList" "HOL-Library.Log_Nat"
begin

section \<open>Strings and numbers of the host language\<close>

text \<open>
  A string of the program (a word, a topic, the text of a response) is a list of 8-bit
  characters; one character stands for one UTF-16 code unit in the range 0..255
  (Latin-1). A string inside a JSON value is a list of code units of any value below
  65536, since an escape in a response can denote any of them.
\<close>

type_synonym ustring = "nat list"

definition units :: "string \<Rightarrow> ustring" where
  \<comment> \<open>the code units of a string of the program\<close>
  "units s = map of_char s"

definition isSpace :: "char \<Rightarrow> bool" where
  \<comment> \<open>the white space of \<open>String.prototype.trim\<close> and of the regular expression class
     \<open>\s\<close>, as far as it lies in the modelled alphabet: TAB, LF, VT, FF, CR, SPACE, NBSP\<close>
  "isSpace c = (let n = (of_char c :: nat) in (9 \<le> n \<and> n \<le> 13) \<or> n = 32 \<or> n = 160)"

definition trim :: "string \<Rightarrow> string" where
  "trim s = rev (dropWhile isSpace (rev (dropWhile isSpace s)))"

definition lower_char :: "char \<Rightarrow> char" where
  \<comment> \<open>\<open>A..Z\<close> and the Latin-1 capitals \<open>U+00C0..U+00DE\<close> (without the sign \<open>U+00D7\<close>)
     move up by 32; every other character of the alphabet is its own lower case\<close>
  "lower_char c = (let n = (of_char c :: nat) in
     if (65 \<le> n \<and> n \<le> 90) \<or> (192 \<le> n \<and> n \<le> 222 \<and> n \<noteq> 215)
     then char_of (n + 32) else c)"

definition toLowerCase :: "string \<Rightarrow> string" where
  "toLowerCase s = map lower_char s"

definition digit_char :: "nat \<Rightarrow> char" where
  "digit_char d = ''0123456789'' ! d"

fun toString :: "nat \<Rightarrow> string" where
  "toString n = (if n < 10 then [digit_char n] else toString (n div 10) @ [digit_char (n mod 10)])"

declare toString.simps [simp del]

section \<open>Data model (types.ts)\<close>

text \<open>
  Field names are those of the interfaces; where two interfaces share a field name the
  later one carries the interface as a prefix (\<open>id\<close> of \<open>SavedWord\<close> is \<open>word_id\<close>).
  Counters and time stamps are integral numbers far below \<open>2^53\<close>, where the host's
  double arithmetic is exact: they are \<open>int\<close> and \<open>nat\<close>.
\<close>

record WordDefinition =
  word :: string
  phonetic :: string
  chineseMeaning :: string
  englishDefinition :: string
  exampleSentence :: string
  partOfSpeech :: string
  level :: string
  synonyms :: "string list option"
  antonyms :: "string list option"
  relatedWords :: "string list option"

record SavedWord = WordDefinition +
  word_id :: string
  dateLearned :: nat
  reviewCount :: int

section \<open>Application state store (App.tsx): the saved words\<close>

definition sameWord :: "SavedWord \<Rightarrow> SavedWord \<Rightarrow> bool" where
  \<comment> \<open>\<open>w.word.toLowerCase() === word.word.toLowerCase()\<close>\<close>
  "sameWord w v = (toLowerCase (word w) = toLowerCase (word v))"

definition handleSaveWord :: "SavedWord list \<Rightarrow> SavedWord \<Rightarrow> SavedWord list" where
  "handleSaveWord prev w =
     (case find (\<lambda>v. sameWord v w) prev of
        Some _ \<Rightarrow> prev
      | None \<Rightarrow> w # prev)"

definition handleQuizResult :: "SavedWord list \<Rightarrow> string \<Rightarrow> bool \<Rightarrow> SavedWord list" where
  "handleQuizResult prev wordId success =
     map (\<lambda>w. if word_id w = wordId
               then w\<lparr>reviewCount := (if success then reviewCount w + 1
                                       else max 0 (reviewCount w - 1))\<rparr>
               else w) prev"

definition handleDeleteWord :: "SavedWord list \<Rightarrow> string \<Rightarrow> SavedWord list" where
  "handleDeleteWord prev i = filter (\<lambda>w. word_id w \<noteq> i) prev"

definition newSavedWord :: "WordDefinition \<Rightarrow> nat \<Rightarrow> nat \<Rightarrow> SavedWord" where
  \<comment> \<open>\<open>{ ...def, id: Date.now().toString(), dateLearned: Date.now(), reviewCount: 0 }\<close>,
     the object every caller of \<open>onSaveWord\<close> builds; \<open>t1\<close> and \<open>t2\<close> are the two
     readings of the clock\<close>
  "newSavedWord d t1 t2 =
     WordDefinition.extend d (SavedWord.fields (toString t1) t2 0)"

text \<open>
  The callers of the store. \<open>QuickTranslator\<close> and \<open>ArticleReader\<close> save a word built
  by \<open>newSavedWord\<close>. \<open>GlobalTranslator\<close> keeps a displayed entry (\<open>definition\<close>): a click
  on a word shows the saved entry of that word when there is one, and otherwise the
  fresh definition (nothing when the lookup fails); \<open>handleSaveCurrent\<close> saves what is
  displayed. \<open>QuizPopup\<close> reports quiz results, \<open>Notebook\<close> deletes by identifier.
\<close>

record app =
  savedWords :: "SavedWord list"
  shown :: "SavedWord option"

datatype action =
    SaveNew WordDefinition nat nat
  | WordClick string "WordDefinition option" nat nat
  | SaveCurrent
  | QuizResult string bool
  | DeleteWord string

fun step :: "app \<Rightarrow> action \<Rightarrow> app" where
  "step a (SaveNew d t1 t2) =
     a\<lparr>savedWords := handleSaveWord (savedWords a) (newSavedWord d t1 t2)\<rparr>"
| "step a (WordClick cleanWord looked t1 t2) =
     (if length cleanWord < 2 then a else
      case find (\<lambda>w. toLowerCase (word w) = toLowerCase cleanWord) (savedWords a) of
        Some existing \<Rightarrow> a\<lparr>shown := Some existing\<rparr>
      | None \<Rightarrow> a\<lparr>shown := map_option (\<lambda>d. newSavedWord d t1 t2) looked\<rparr>)"
| "step a SaveCurrent =
     (case shown a of
        None \<Rightarrow> a
      | Some d \<Rightarrow> a\<lparr>savedWords := handleSaveWord (savedWords a) d\<rparr>)"
| "step a (QuizResult wordId success) =
     a\<lparr>savedWords := handleQuizResult (savedWords a) wordId success\<rparr>"
| "step a (DeleteWord i) =
     a\<lparr>savedWords := handleDeleteWord (savedWords a) i\<rparr>"

text \<open>
  The store starts empty. The snapshot that is loaded from local storage at start-up is
  a collection that an earlier run wrote, that is, a state reached from the empty one.
\<close>

definition init :: app where
  "init = \<lparr>savedWords = [], shown = None\<rparr>"

definition run :: "action list \<Rightarrow> app" where
  "run as = foldl step init as"

definition wordKeys :: "SavedWord list \<Rightarrow> string list" where
  "wordKeys ws = map (\<lambda>w. toLowerCase (word w)) ws"

definition countWord :: "SavedWord list \<Rightarrow> string \<Rightarrow> nat" where
  \<comment> \<open>the number of saved entries whose word text is \<open>t\<close>, letter case ignored\<close>
  "countWord ws t = length (filter (\<lambda>w. toLowerCase (word w) = toLowerCase t) ws)"


section \<open>Numbers: the doubles that the code computes with\<close>

text \<open>
  A finite double is the rational number it denotes. \<open>fl\<close> rounds a rational to the
  nearest number with a 53-bit significand, ties to even (IEEE 754 binary64 without
  the bounds on the exponent: overflow to infinity, subnormal numbers and the sign of
  zero are outside the model).
\<close>

definition round_even :: "rat \<Rightarrow> int" where
  "round_even x = (let f = \<lfloor>x\<rfloor>; d = x - of_int f in
     if d < 1/2 then f else if 1/2 < d then f + 1 else if even f then f else f + 1)"

definition ilog2 :: "rat \<Rightarrow> int" where
  \<comment> \<open>the exponent \<open>k\<close> with \<open>2^k \<le> |x| < 2^(k+1)\<close>, for \<open>x \<noteq> 0\<close>\<close>
  "ilog2 x = (let (a, b) = quotient_of \<bar>x\<bar>; k = bitlen a - bitlen b in
     if 2 powi k \<le> \<bar>x\<bar> then k else k - 1)"

definition fl :: "rat \<Rightarrow> rat" where
  "fl x = (if x = 0 then 0 else
     let e = ilog2 x - 52 in of_int (round_even (x / (2 powi e))) * (2 powi e))"

definition fdiv :: "rat \<Rightarrow> rat \<Rightarrow> rat option" where
  \<comment> \<open>\<open>x / y\<close> on doubles; \<open>None\<close> stands for the results that are not finite numbers
     (\<open>NaN\<close> for \<open>0/0\<close>, an infinity otherwise)\<close>
  "fdiv x y = (if y = 0 then None else Some (fl (x / y)))"

definition fmul :: "rat \<Rightarrow> rat \<Rightarrow> rat" where
  "fmul x y = fl (x * y)"

text \<open>
  A number read by \<open>JSON.parse\<close> can be of any magnitude, so there the bounds on the
  exponent count: below \<open>2^-1022\<close> the doubles are \<open>2^-1074\<close> apart, down to zero, and a
  value that rounds to \<open>2^1024\<close> or beyond becomes an infinity. The two zeros are one
  value: the program tests a parsed number for truth and for equality only, where
  \<open>-0\<close> and \<open>0\<close> agree.
\<close>

datatype double = Fin rat | PosInf | NegInf

definition flsub :: "rat \<Rightarrow> rat" where
  \<comment> \<open>\<open>fl\<close> with the least exponent of binary64\<close>
  "flsub x = (if x = 0 then 0 else
     let e = max (ilog2 x - 52) (- 1074) in of_int (round_even (x / (2 powi e))) * (2 powi e))"

definition overflow :: rat where
  \<comment> \<open>\<open>2^1024\<close>, the least magnitude that is no finite double\<close>
  "overflow = 179769313486231590772930519078902473361797697894230657273430081157732675805500963132708477322407536021120113879871393357658789768814416622492847430639474124377767893424865485276302219601246094119453082952085005768838150682342462881473913110540827237163350510684586298239947245938479716304835356329624224137216"

definition toDouble :: "rat \<Rightarrow> double" where
  "toDouble x =
     (let y = flsub x in
      if overflow \<le> \<bar>y\<bar> then (if 0 < x then PosInf else NegInf) else Fin y)"

section \<open>JSON values and \<open>JSON.parse\<close>\<close>

datatype json =
    JNull
  | JBool bool
  | JNum double
  | JStr ustring
  | JArr "json list"
  | JObj "(ustring \<times> json) list"

text \<open>
  An object is the list of its own properties in creation order; a repeated key keeps
  its place and takes the later value, as \<open>JSON.parse\<close> does (\<open>AList.update\<close>).
  A property that is absent reads as \<open>undefined\<close>, that is \<open>None\<close>.
\<close>

datatype error =
    Error string
  | TypeError
  | SyntaxError

datatype token =
    TLBrace | TRBrace | TLBrack | TRBrack | TColon | TComma
  | TStr ustring | TNum double | TTrue | TFalse | TNull

subsection \<open>Tokens\<close>

definition isDigit :: "char \<Rightarrow> bool" where
  "isDigit c = (let n = (of_char c :: nat) in 48 \<le> n \<and> n \<le> 57)"

definition digitVal :: "char \<Rightarrow> nat" where
  "digitVal c = of_char c - 48"

definition decimal :: "string \<Rightarrow> nat" where
  "decimal ds = foldl (\<lambda>a c. 10 * a + digitVal c) 0 ds"

definition hexVal :: "char \<Rightarrow> nat option" where
  "hexVal c = (let n = (of_char c :: nat) in
     if 48 \<le> n \<and> n \<le> 57 then Some (n - 48)
     else if 65 \<le> n \<and> n \<le> 70 then Some (n - 55)
     else if 97 \<le> n \<and> n \<le> 102 then Some (n - 87)
     else None)"

definition validInt :: "string \<Rightarrow> bool" where
  \<comment> \<open>\<open>0\<close> or a digit sequence without a leading zero\<close>
  "validInt ds = (ds \<noteq> [] \<and> (ds = ''0'' \<or> hd ds \<noteq> CHR ''0''))"

definition numberOf :: "string \<Rightarrow> double option" where
  \<comment> \<open>the JSON number grammar \<open>-? int frac? exp?\<close> on a whole lexeme, and the double
     nearest to its value\<close>
  "numberOf s =
     (let neg = (s \<noteq> [] \<and> hd s = CHR ''-'');
          s1 = (if neg then tl s else s);
          ip = takeWhile isDigit s1;
          r1 = dropWhile isDigit s1;
          hasFrac = (r1 \<noteq> [] \<and> hd r1 = CHR ''.'');
          fp = (if hasFrac then takeWhile isDigit (tl r1) else []);
          r2 = (if hasFrac then dropWhile isDigit (tl r1) else r1);
          hasExp = (r2 \<noteq> [] \<and> (hd r2 = CHR ''e'' \<or> hd r2 = CHR ''E''));
          r3 = (if hasExp then tl r2 else r2);
          eneg = (hasExp \<and> r3 \<noteq> [] \<and> hd r3 = CHR ''-'');
          r4 = (if hasExp \<and> r3 \<noteq> [] \<and> (hd r3 = CHR ''-'' \<or> hd r3 = CHR ''+'') then tl r3 else r3);
          ep = (if hasExp then takeWhile isDigit r4 else []);
          r5 = (if hasExp then dropWhile isDigit r4 else r4)
      in if validInt ip \<and> (hasFrac \<longrightarrow> fp \<noteq> []) \<and> (hasExp \<longrightarrow> ep \<noteq> []) \<and> r5 = []
         then let m = of_nat (decimal (ip @ fp)) / 10 ^ length fp;
                  v = (if eneg then m / 10 ^ decimal ep else m * 10 ^ decimal ep)
              in Some (toDouble (if neg then - v else v))
         else None)"

definition wordToken :: "string \<Rightarrow> token option" where
  "wordToken s =
     (if s = ''true'' then Some TTrue
      else if s = ''false'' then Some TFalse
      else if s = ''null'' then Some TNull
      else map_option TNum (numberOf s))"

definition isWordChar :: "char \<Rightarrow> bool" where
  \<comment> \<open>the characters of literals and numbers\<close>
  "isWordChar c = (let n = (of_char c :: nat) in
     (48 \<le> n \<and> n \<le> 57) \<or> (65 \<le> n \<and> n \<le> 90) \<or> (97 \<le> n \<and> n \<le> 122)
     \<or> c = CHR ''-'' \<or> c = CHR ''+'' \<or> c = CHR ''.'')"

definition isJsonSpace :: "char \<Rightarrow> bool" where
  "isJsonSpace c = (let n = (of_char c :: nat) in n = 32 \<or> n = 9 \<or> n = 10 \<or> n = 13)"

datatype lexmode =
    LIdle
  | LWord string
  | LStr ustring
  | LEsc ustring
  | LUni ustring "nat list"

text \<open>
  \<open>LWord\<close> holds the characters of a literal or number read so far; \<open>LStr\<close>, \<open>LEsc\<close>
  and \<open>LUni\<close> hold the code units of a string read so far, \<open>LUni\<close> also the hexadecimal
  digits of the escape. All are in reverse.
\<close>

definition punct :: "char \<Rightarrow> token option" where
  "punct c =
     (if c = CHR ''{'' then Some TLBrace
      else if c = CHR ''}'' then Some TRBrace
      else if c = CHR ''['' then Some TLBrack
      else if c = CHR '']'' then Some TRBrack
      else if c = CHR '':'' then Some TColon
      else if c = CHR '','' then Some TComma
      else None)"

definition lexIdle :: "token list \<Rightarrow> char \<Rightarrow> (token list \<times> lexmode) option" where
  "lexIdle ts c =
     (if isJsonSpace c then Some (ts, LIdle)
      else if c = CHR 0x22 then Some (ts, LStr [])
      else if isWordChar c then Some (ts, LWord [c])
      else case punct c of Some t \<Rightarrow> Some (t # ts, LIdle) | None \<Rightarrow> None)"

definition escapeChar :: "char \<Rightarrow> nat option" where
  \<comment> \<open>the code unit of a one-letter escape\<close>
  "escapeChar c =
     (if c = CHR 0x22 \<or> c = CHR 0x5C \<or> c = CHR ''/'' then Some (of_char c)
      else if c = CHR ''b'' then Some 8
      else if c = CHR ''f'' then Some 12
      else if c = CHR ''n'' then Some 10
      else if c = CHR ''r'' then Some 13
      else if c = CHR ''t'' then Some 9
      else None)"

fun lexStep :: "token list \<times> lexmode \<Rightarrow> char \<Rightarrow> (token list \<times> lexmode) option" where
  "lexStep (ts, LIdle) c = lexIdle ts c"
| "lexStep (ts, LWord acc) c =
     (if isWordChar c then Some (ts, LWord (c # acc))
      else case wordToken (rev acc) of
             None \<Rightarrow> None
           | Some t \<Rightarrow> lexIdle (t # ts) c)"
| "lexStep (ts, LStr acc) c =
     (if c = CHR 0x22 then Some (TStr (rev acc) # ts, LIdle)
      else if c = CHR 0x5C then Some (ts, LEsc acc)
      else if (of_char c :: nat) < 32 then None
      else Some (ts, LStr (of_char c # acc)))"
| "lexStep (ts, LEsc acc) c =
     (if c = CHR ''u'' then Some (ts, LUni acc [])
      else case escapeChar c of
             None \<Rightarrow> None
           | Some d \<Rightarrow> Some (ts, LStr (d # acc)))"
| "lexStep (ts, LUni acc ds) c =
     (case hexVal c of
        None \<Rightarrow> None
      | Some d \<Rightarrow>
          if length ds < 3 then Some (ts, LUni acc (ds @ [d]))
          else Some (ts, LStr (foldl (\<lambda>a h. 16 * a + h) 0 (ds @ [d]) # acc)))"

fun lexAll :: "token list \<times> lexmode \<Rightarrow> string \<Rightarrow> (token list \<times> lexmode) option" where
  "lexAll st [] = Some st"
| "lexAll st (c # cs) = (case lexStep st c of None \<Rightarrow> None | Some st' \<Rightarrow> lexAll st' cs)"

definition tokens :: "string \<Rightarrow> token list option" where
  \<comment> \<open>\<open>None\<close>: the text is not a sequence of JSON tokens\<close>
  "tokens s =
     (case lexAll ([], LIdle) s of
        Some (ts, LIdle) \<Rightarrow> Some (rev ts)
      | Some (ts, LWord acc) \<Rightarrow> map_option (\<lambda>t. rev (t # ts)) (wordToken (rev acc))
      | _ \<Rightarrow> None)"

subsection \<open>Values\<close>

datatype frame =
    FArr "json list"
  | FObj "(ustring \<times> json) list" "ustring option"

text \<open>
  \<open>FArr xs\<close> is an open array with the elements read so far, in reverse; \<open>FObj kvs k\<close> is
  an open object with its properties and the key whose value is awaited.
\<close>

datatype expect =
    Val
  | ValOrClose
  | KeyOrClose
  | Key
  | Colon
  | CommaOrClose
  | Done json

definition pushValue :: "json \<Rightarrow> frame list \<Rightarrow> (frame list \<times> expect) option" where
  "pushValue v st =
     (case st of
        [] \<Rightarrow> Some ([], Done v)
      | FArr xs # rest \<Rightarrow> Some (FArr (v # xs) # rest, CommaOrClose)
      | FObj kvs (Some k) # rest \<Rightarrow> Some (FObj (AList.update k v kvs) None # rest, CommaOrClose)
      | FObj kvs None # rest \<Rightarrow> None)"

definition startValue :: "frame list \<Rightarrow> token \<Rightarrow> (frame list \<times> expect) option" where
  "startValue st t =
     (case t of
        TLBrack \<Rightarrow> Some (FArr [] # st, ValOrClose)
      | TLBrace \<Rightarrow> Some (FObj [] None # st, KeyOrClose)
      | TStr s \<Rightarrow> pushValue (JStr s) st
      | TNum n \<Rightarrow> pushValue (JNum n) st
      | TTrue \<Rightarrow> pushValue (JBool True) st
      | TFalse \<Rightarrow> pushValue (JBool False) st
      | TNull \<Rightarrow> pushValue JNull st
      | _ \<Rightarrow> None)"

definition closeFrame :: "frame list \<Rightarrow> token \<Rightarrow> (frame list \<times> expect) option" where
  "closeFrame st t =
     (case (st, t) of
        (FArr xs # rest, TRBrack) \<Rightarrow> pushValue (JArr (rev xs)) rest
      | (FObj kvs None # rest, TRBrace) \<Rightarrow> pushValue (JObj kvs) rest
      | _ \<Rightarrow> None)"

definition takeKey :: "frame list \<Rightarrow> token \<Rightarrow> (frame list \<times> expect) option" where
  "takeKey st t =
     (case (st, t) of
        (FObj kvs None # rest, TStr k) \<Rightarrow> Some (FObj kvs (Some k) # rest, Colon)
      | _ \<Rightarrow> None)"

fun parseStep :: "frame list \<times> expect \<Rightarrow> token \<Rightarrow> (frame list \<times> expect) option" where
  "parseStep (st, Val) t = startValue st t"
| "parseStep (st, ValOrClose) t = (if t = TRBrack then closeFrame st t else startValue st t)"
| "parseStep (st, KeyOrClose) t = (if t = TRBrace then closeFrame st t else takeKey st t)"
| "parseStep (st, Key) t = takeKey st t"
| "parseStep (st, Colon) t = (if t = TColon then Some (st, Val) else None)"
| "parseStep (st, CommaOrClose) t =
     (if t = TComma
      then (case st of
              FArr xs # rest \<Rightarrow> Some (st, Val)
            | FObj kvs None # rest \<Rightarrow> Some (st, Key)
            | _ \<Rightarrow> None)
      else closeFrame st t)"
| "parseStep (st, Done v) t = None"

fun parseAll :: "frame list \<times> expect \<Rightarrow> token list \<Rightarrow> (frame list \<times> expect) option" where
  "parseAll st [] = Some st"
| "parseAll st (t # ts) = (case parseStep st t of None \<Rightarrow> None | Some st' \<Rightarrow> parseAll st' ts)"

definition JSON_parse :: "string \<Rightarrow> json option" where
  \<comment> \<open>\<open>None\<close> is the \<open>SyntaxError\<close> that \<open>JSON.parse\<close> throws\<close>
  "JSON_parse s =
     (case tokens s of
        None \<Rightarrow> None
      | Some ts \<Rightarrow>
          (case parseAll ([], Val) ts of
             Some ([], Done v) \<Rightarrow> Some v
           | _ \<Rightarrow> None))"


definition propOf :: "json \<Rightarrow> string \<Rightarrow> json option" where
  \<comment> \<open>reading a property of a value that is not \<open>null\<close>; the names read by this program
     (\<open>title\<close>, \<open>content\<close>, \<open>question\<close>, \<open>options\<close>, \<open>correctOptionIndex\<close>) are
     properties of objects only\<close>
  "propOf v k = (case v of JObj kvs \<Rightarrow> map_of kvs (units k) | _ \<Rightarrow> None)"

definition truthy :: "json option \<Rightarrow> bool" where
  "truthy v =
     (case v of
        None \<Rightarrow> False
      | Some JNull \<Rightarrow> False
      | Some (JBool b) \<Rightarrow> b
      | Some (JNum n) \<Rightarrow> n \<noteq> Fin 0
      | Some (JStr s) \<Rightarrow> s \<noteq> []
      | Some _ \<Rightarrow> True)"

definition orElse :: "json option \<Rightarrow> json \<Rightarrow> json" where
  \<comment> \<open>\<open>v || d\<close>\<close>
  "orElse v d = (case v of None \<Rightarrow> d | Some x \<Rightarrow> if truthy v then x else d)"

section \<open>JSON response extraction (geminiService.ts)\<close>

definition startsWith :: "string \<Rightarrow> string \<Rightarrow> bool" where
  "startsWith s p = (take (length p) s = p)"

definition endsWith :: "string \<Rightarrow> string \<Rightarrow> bool" where
  "endsWith s p = (length p \<le> length s \<and> drop (length s - length p) s = p)"

definition stripOpening :: "nat \<Rightarrow> string \<Rightarrow> string" where
  \<comment> \<open>\<open>replace(/^```json\s*/, '')\<close> and \<open>replace(/^```\s*/, '')\<close> on a text that starts with
     the fence of \<open>n\<close> characters: the fence and the white space after it go\<close>
  "stripOpening n s = dropWhile isSpace (drop n s)"

definition stripClosing :: "string \<Rightarrow> string" where
  \<comment> \<open>\<open>replace(/\s*```$/, '')\<close>: the leftmost match ends the text, so a text that ends
     with the fence loses it and the white space before it; any other text is kept\<close>
  "stripClosing s =
     (if endsWith s ''```''
      then rev (dropWhile isSpace (rev (take (length s - 3) s)))
      else s)"

definition cleanJsonText :: "string \<Rightarrow> string" where
  "cleanJsonText text =
     (if text = [] then ''{}''
      else let clean = trim text in
        if startsWith clean ''```json'' then stripClosing (stripOpening 7 clean)
        else if startsWith clean ''```'' then stripClosing (stripOpening 3 clean)
        else clean)"

section \<open>Provider gateway (geminiService.ts)\<close>

datatype provider = Gemini | Custom

record AISettings =
  provider :: provider
  baseUrl :: "string option"
  customApiKey :: "string option"
  modelName :: string
  temperature :: rat
  tutorPersona :: string

text \<open>
  A prompt is a template literal; the model keeps the template's name and the values
  interpolated into it, not the constant text around them.
\<close>

datatype prompt =
    SearchPrompt string
  | WritePrompt string
  | ImportPrompt string string
  | DefinePrompt string "string option"
  | TranslatePrompt string
  | AssessPrompt string
  | QuizPrompt string
  | ExamPrompt string string string

datatype schema = ImportSchema | DefineSchema | QuizSchema | ExamSchema

datatype tool = GoogleSearch

datatype part = TextPart string | InlineData string string

datatype contents = Prompt prompt | Parts "part list"

datatype content =
    PromptText prompt
  | PlainText string
  | SchemaInstruction schema

record message =
  role :: string
  content :: content

record gen_request =
  gen_model :: string
  gen_contents :: contents
  gen_temperature :: "rat option"
  responseSchema :: "schema option"
  tools :: "tool list option"

record http_request =
  endpoint :: string
  authorization :: string
  body_model :: string
  body_messages :: "message list"
  body_temperature :: rat

record history_entry =
  entry_role :: string
  parts :: "string list"

record chat_request =
  chat_model :: string
  chat_history :: "history_entry list"
  systemInstruction :: string
  chat_temperature :: rat
  chat_message :: string

datatype request =
    GenerateContent gen_request
  | Fetch http_request
  | SendMessage chat_request

record http_response =
  ok :: bool
  statusText :: string
  reply :: "error + string option"

text \<open>
  \<open>reply\<close> is the outcome of \<open>await response.json()\<close> followed by the read
  \<open>data.choices?.[0]?.message?.content\<close>: an error when the body is not JSON or is
  \<open>null\<close>, \<open>None\<close> when the chain ends in \<open>undefined\<close> or \<open>null\<close>, the content
  otherwise.

  The world outside the program answers each outbound call: an error is a rejected
  promise, \<open>None\<close> a response without text.
\<close>

record world =
  generateContent :: "gen_request \<Rightarrow> error + string option"
  fetch :: "http_request \<Rightarrow> error + http_response"
  sendMessage :: "chat_request \<Rightarrow> error + string option"

type_synonym 'a io = "request list \<times> (error + 'a)"

text \<open>
  An operation returns the outbound calls it made, in order, and its outcome: \<open>Inl\<close>
  is a thrown error (a rejected promise), \<open>Inr\<close> the value returned.
\<close>

definition DEFAULT_MODEL :: string where
  "DEFAULT_MODEL = ''gemini-2.5-flash''"

definition providerOf :: "AISettings option \<Rightarrow> provider" where
  \<comment> \<open>\<open>settings?.provider || 'gemini'\<close>\<close>
  "providerOf settings = (case settings of None \<Rightarrow> Gemini | Some s \<Rightarrow> provider s)"

definition modelOf :: "AISettings option \<Rightarrow> string" where
  \<comment> \<open>\<open>settings?.modelName || DEFAULT_MODEL\<close>\<close>
  "modelOf settings =
     (case settings of
        None \<Rightarrow> DEFAULT_MODEL
      | Some s \<Rightarrow> if modelName s = [] then DEFAULT_MODEL else modelName s)"

definition tempOf :: "AISettings option \<Rightarrow> rat" where
  \<comment> \<open>\<open>settings?.temperature ?? 0.7\<close>\<close>
  "tempOf settings = (case settings of None \<Rightarrow> fl (7 / 10) | Some s \<Rightarrow> temperature s)"

definition missing :: "string option \<Rightarrow> bool" where
  \<comment> \<open>\<open>!x\<close> for an optional string: \<open>undefined\<close> or empty\<close>
  "missing x = (case x of None \<Rightarrow> True | Some v \<Rightarrow> v = [])"

definition missingCredentials :: "AISettings option \<Rightarrow> bool" where
  \<comment> \<open>\<open>!settings?.baseUrl || !settings?.customApiKey\<close>\<close>
  "missingCredentials settings =
     (case settings of
        None \<Rightarrow> True
      | Some s \<Rightarrow> missing (baseUrl s) \<or> missing (customApiKey s))"

definition endpointOf :: "string \<Rightarrow> string" where
  "endpointOf base =
     (if endsWith base ''/'' then base @ ''chat/completions''
      else base @ ''/chat/completions'')"

definition orEmpty :: "string option \<Rightarrow> string" where
  \<comment> \<open>\<open>x || ""\<close>\<close>
  "orEmpty x = (case x of None \<Rightarrow> [] | Some t \<Rightarrow> t)"

definition userMessage :: "contents \<Rightarrow> message" where
  "userMessage c =
     (case c of
        Prompt p \<Rightarrow> \<lparr>role = ''user'', content = PromptText p\<rparr>
      | Parts ps \<Rightarrow>
          (case find (\<lambda>p. case p of TextPart t \<Rightarrow> t \<noteq> [] | InlineData d m \<Rightarrow> False) ps of
             Some (TextPart t) \<Rightarrow> \<lparr>role = ''user'', content = PlainText t\<rparr>
           | _ \<Rightarrow> \<lparr>role = ''user'',
                   content = PlainText ''Content not supported for custom provider yet''\<rparr>))"

definition callAI ::
  "world \<Rightarrow> contents \<Rightarrow> AISettings option \<Rightarrow> schema option \<Rightarrow> tool list option \<Rightarrow> string io"
where
  "callAI W prompt settings schm tls =
     (if providerOf settings = Gemini then
        (let req = \<lparr>gen_model = modelOf settings, gen_contents = prompt,
                    gen_temperature = Some (tempOf settings),
                    responseSchema = schm, tools = tls\<rparr>
         in ([GenerateContent req],
             case generateContent W req of
               Inl e \<Rightarrow> Inl e
             | Inr txt \<Rightarrow> Inr (orEmpty txt)))
      else if missingCredentials settings then
        ([], Inl (Error ''Missing Base URL or API Key for custom provider''))
      else
        (let messages = userMessage prompt #
               (case schm of
                  None \<Rightarrow> []
                | Some sc \<Rightarrow> [\<lparr>role = ''system'', content = SchemaInstruction sc\<rparr>]);
             req = \<lparr>endpoint = endpointOf (orEmpty (Option.bind settings baseUrl)),
                    authorization = ''Bearer '' @ orEmpty (Option.bind settings customApiKey),
                    body_model = modelOf settings,
                    body_messages = messages,
                    body_temperature = tempOf settings\<rparr>
         in ([Fetch req],
             case fetch W req of
               Inl e \<Rightarrow> Inl e
             | Inr response \<Rightarrow>
                 if \<not> ok response
                 then Inl (Error (''Custom API Error: '' @ statusText response))
                 else (case reply response of
                         Inl e \<Rightarrow> Inl e
                       | Inr c \<Rightarrow> Inr (orEmpty c)))))"


section \<open>Domain operations (geminiService.ts)\<close>

record Article =
  article_id :: string
  title :: "json option"
  article_content :: "json option"
  source :: string
  dateAdded :: nat
  article_type :: string

text \<open>
  \<open>title\<close> and \<open>content\<close> of an article found by the search are the properties of the
  parsed element as they are, \<open>None\<close> when the element has none: nothing checks them.
\<close>

record imported =
  imported_title :: json
  imported_content :: json

record ('q, 'o, 'i) QuizQuestion =
  question_id :: string
  question_type :: string
  question :: 'q
  options :: 'o
  correctOptionIndex :: 'i
  explanation :: "string option"

text \<open>
  The interface declares \<open>question: string\<close>, \<open>options: string[]\<close> and
  \<open>correctOptionIndex: number\<close>. The exam screen reads questions at these types. The
  quiz generator fills the three fields from the parsed response and casts the object
  (\<open>as QuizQuestion\<close>), so there they are JSON values, \<open>None\<close> when absent.
\<close>

type_synonym Question = "(string, string list, rat) QuizQuestion"

type_synonym ParsedQuestion = "(json option, json option, json option) QuizQuestion"

fun join :: "string \<Rightarrow> string list \<Rightarrow> string" where
  "join sep [] = []"
| "join sep [x] = x"
| "join sep (x # y # ys) = x @ sep @ join sep (y # ys)"

definition sliceLast :: "nat \<Rightarrow> 'a list \<Rightarrow> 'a list" where
  \<comment> \<open>\<open>xs.slice(-n)\<close>\<close>
  "sliceLast n xs = drop (length xs - n) xs"

definition searchFailed :: error where
  "searchFailed = Error ''Failed to fetch articles. Please check your AI settings.''"

definition toArticle :: "string \<Rightarrow> (nat \<Rightarrow> nat) \<Rightarrow> nat \<Rightarrow> json \<Rightarrow> Article" where
  \<comment> \<open>the callback of \<open>rawArticles.map\<close> on an element that is not \<open>null\<close>; \<open>clock k\<close> is
     the \<open>k\<close>-th reading of \<open>Date.now()\<close> during the call\<close>
  "toArticle sourceLabel clock index a =
     \<lparr>article_id = toString (clock (2 * index)) @ toString index,
      title = propOf a ''title'',
      article_content = propOf a ''content'',
      source = sourceLabel,
      dateAdded = clock (2 * index + 1),
      article_type = ''web''\<rparr>"

definition articlesOf :: "string \<Rightarrow> (nat \<Rightarrow> nat) \<Rightarrow> string \<Rightarrow> error + Article list" where
  \<comment> \<open>\<open>searchArticles\<close> from \<open>cleanJsonText(rawText)\<close> on: a parse error returns the empty
     list, a value that is no array too; reading a property of a \<open>null\<close> element throws
     a \<open>TypeError\<close>, which the outer \<open>catch\<close> turns into the search failure\<close>
  "articlesOf sourceLabel clock rawText =
     (case JSON_parse (cleanJsonText rawText) of
        None \<Rightarrow> Inr []
      | Some (JArr rawArticles) \<Rightarrow>
          if JNull \<in> set rawArticles then Inl searchFailed
          else Inr (map (\<lambda>(index, a). toArticle sourceLabel clock index a)
                        (enumerate 0 rawArticles))
      | Some _ \<Rightarrow> Inr [])"

definition searchCall :: "world \<Rightarrow> string \<Rightarrow> AISettings option \<Rightarrow> string io" where
  \<comment> \<open>the call of \<open>searchArticles\<close>: search grounding on the native provider, plain
     generation on the other\<close>
  "searchCall W topic settings =
     (if providerOf settings = Gemini
      then callAI W (Prompt (SearchPrompt topic)) settings None (Some [GoogleSearch])
      else callAI W (Prompt (WritePrompt topic)) settings None None)"

definition sourceLabelOf :: "AISettings option \<Rightarrow> string" where
  "sourceLabelOf settings =
     (if providerOf settings = Gemini then ''Google Search'' else ''AI Generated'')"

definition searchArticles ::
  "world \<Rightarrow> (nat \<Rightarrow> nat) \<Rightarrow> string \<Rightarrow> AISettings option \<Rightarrow> Article list io"
where
  "searchArticles W clock topic settings =
     (let (calls, rawText) = searchCall W topic settings;
          sourceLabel = sourceLabelOf settings
      in (calls,
          case rawText of
            Inl e \<Rightarrow> Inl searchFailed
          | Inr t \<Rightarrow> articlesOf sourceLabel clock t))"

definition ocrInstruction :: string where
  "ocrInstruction = ''Transcribe the English text from this image accurately. Preserve paragraph structure. Do not add any commentary.''"

definition ocrPlaceholder :: string where
  "ocrPlaceholder = ''OCR is currently optimized for Gemini Provider. Please switch to Gemini for image scanning.''"

definition extractTextFromImage ::
  "world \<Rightarrow> string \<Rightarrow> string \<Rightarrow> AISettings option \<Rightarrow> string io"
where
  "extractTextFromImage W base64Image mimeType settings =
     (if providerOf settings = Custom then ([], Inr ocrPlaceholder)
      else
        (let req = \<lparr>gen_model = modelOf settings,
                    gen_contents = Parts [InlineData base64Image mimeType, TextPart ocrInstruction],
                    gen_temperature = None, responseSchema = None, tools = None\<rparr>
         in ([GenerateContent req],
             case generateContent W req of
               Inl e \<Rightarrow> Inl (Error ''Failed to extract text from image.'')
             | Inr txt \<Rightarrow> Inr (orEmpty txt))))"

definition importCall :: "world \<Rightarrow> string \<Rightarrow> string \<Rightarrow> AISettings option \<Rightarrow> string io" where
  \<comment> \<open>the call of \<open>processImportedText\<close>; the prompt carries \<open>rawText.slice(0, 15000)\<close>\<close>
  "importCall W rawText fileName settings =
     callAI W (Prompt (ImportPrompt fileName (take 15000 rawText))) settings
       (Some ImportSchema) None"

definition processImportedText ::
  "world \<Rightarrow> string \<Rightarrow> string \<Rightarrow> AISettings option \<Rightarrow> imported io"
where
  "processImportedText W rawText fileName settings =
     (let (calls, response) = importCall W rawText fileName settings;
          fallback = \<lparr>imported_title = JStr (units fileName),
                      imported_content = JStr (units rawText)\<rparr>
      in (calls,
          Inr (case response of
                 Inl e \<Rightarrow> fallback
               | Inr t \<Rightarrow>
                   (case JSON_parse (cleanJsonText t) of
                      None \<Rightarrow> fallback
                    | Some JNull \<Rightarrow> fallback
                    | Some data \<Rightarrow>
                        \<lparr>imported_title = orElse (propOf data ''title'') (JStr (units fileName)),
                         imported_content =
                           orElse (propOf data ''content'') (JStr (units rawText))\<rparr>))))"

definition contextOf :: "string option \<Rightarrow> string option" where
  \<comment> \<open>the test \<open>contextSentence ? ... : ...\<close>: an empty sentence counts as none\<close>
  "contextOf c = (if missing c then None else c)"

definition defineCall ::
  "world \<Rightarrow> string \<Rightarrow> string option \<Rightarrow> AISettings option \<Rightarrow> string io"
where
  \<comment> \<open>the call of \<open>defineWord\<close>\<close>
  "defineCall W w contextSentence settings =
     callAI W (Prompt (DefinePrompt w (contextOf contextSentence))) settings
       (Some DefineSchema) None"

definition defineWord ::
  "world \<Rightarrow> string \<Rightarrow> string option \<Rightarrow> AISettings option \<Rightarrow> json io"
where
  "defineWord W w contextSentence settings =
     (let (calls, response) = defineCall W w contextSentence settings
      in (calls,
          case response of
            Inl e \<Rightarrow> Inl (Error ''Failed to define word.'')
          | Inr t \<Rightarrow>
              (case JSON_parse (cleanJsonText t) of
                 None \<Rightarrow> Inl (Error ''Failed to define word.'')
               | Some data \<Rightarrow> Inr data)))"

definition translateCall :: "world \<Rightarrow> string \<Rightarrow> AISettings option \<Rightarrow> string io" where
  \<comment> \<open>the call of \<open>translateText\<close>\<close>
  "translateCall W text settings = callAI W (Prompt (TranslatePrompt text)) settings None None"

definition translateText :: "world \<Rightarrow> string \<Rightarrow> AISettings option \<Rightarrow> string io" where
  "translateText W text settings =
     (let (calls, response) = translateCall W text settings
      in (calls,
          case response of
            Inl e \<Rightarrow> Inl (Error ''Failed to translate text.'')
          | Inr t \<Rightarrow> Inr t))"

definition assessCall :: "world \<Rightarrow> string list \<Rightarrow> AISettings option \<Rightarrow> string io" where
  \<comment> \<open>the call of \<open>assessLevel\<close>; the prompt carries \<open>vocabularyList.join(', ')\<close>\<close>
  "assessCall W vocabularyList settings =
     callAI W (Prompt (AssessPrompt (join '', '' vocabularyList))) settings None None"

definition assessLevel :: "world \<Rightarrow> string list \<Rightarrow> AISettings option \<Rightarrow> string io" where
  "assessLevel W vocabularyList settings =
     (if vocabularyList = [] then ([], Inr ''Unknown'')
      else
        (let (calls, response) = assessCall W vocabularyList settings
         in (calls,
             case response of
               Inl e \<Rightarrow> Inr ''Unknown''
             | Inr t \<Rightarrow> Inr (if trim t = [] then ''Unknown'' else trim t))))"

definition quizCall :: "world \<Rightarrow> string \<Rightarrow> AISettings option \<Rightarrow> string io" where
  \<comment> \<open>the call of \<open>generateQuizForWord\<close>\<close>
  "quizCall W w settings = callAI W (Prompt (QuizPrompt w)) settings (Some QuizSchema) None"

definition generateQuizForWord ::
  "world \<Rightarrow> nat \<Rightarrow> string \<Rightarrow> AISettings option \<Rightarrow> ParsedQuestion io"
where
  "generateQuizForWord W now w settings =
     (let (calls, response) = quizCall W w settings
      in (calls,
          case response of
            Inl e \<Rightarrow> Inl e
          | Inr t \<Rightarrow>
              (case JSON_parse (cleanJsonText t) of
                 None \<Rightarrow> Inl SyntaxError
               | Some JNull \<Rightarrow> Inl TypeError
               | Some data \<Rightarrow>
                   Inr \<lparr>question_id = toString now,
                        question_type = ''fill-blank'',
                        question = propOf data ''question'',
                        options = propOf data ''options'',
                        correctOptionIndex = propOf data ''correctOptionIndex'',
                        explanation = Some (''The correct answer is '' @ w @ ''.'')\<rparr>)))"

definition examCall ::
  "world \<Rightarrow> string \<Rightarrow> string list \<Rightarrow> string option \<Rightarrow> AISettings option \<Rightarrow> string io"
where
  \<comment> \<open>the call of \<open>generateExam\<close>: the prompt carries the level, the last 30 known
     words joined by commas, and \<open>requirements || "General practice"\<close>\<close>
  "examCall W lvl knownWords requirements settings =
     (let knownWordsSample = join '', '' (sliceLast 30 knownWords)
      in callAI W (Prompt (ExamPrompt lvl knownWordsSample
                             (if missing requirements then ''General practice''
                              else orEmpty requirements)))
           settings (Some ExamSchema) None)"

definition generateExam ::
  "world \<Rightarrow> string \<Rightarrow> string list \<Rightarrow> string option \<Rightarrow> AISettings option \<Rightarrow> json io"
where
  "generateExam W lvl knownWords requirements settings =
     (let (calls, response) = examCall W lvl knownWords requirements settings
      in (calls,
          case response of
            Inl e \<Rightarrow> Inl (Error ''Failed to generate exam.'')
          | Inr t \<Rightarrow>
              (case JSON_parse (cleanJsonText t) of
                 None \<Rightarrow> Inl (Error ''Failed to generate exam.'')
               | Some questions \<Rightarrow> Inr questions)))"

definition personaOf :: "AISettings option \<Rightarrow> string" where
  \<comment> \<open>\<open>settings?.tutorPersona || "You are a helpful English Tutor."\<close>\<close>
  "personaOf settings =
     (case settings of
        None \<Rightarrow> ''You are a helpful English Tutor.''
      | Some s \<Rightarrow> if tutorPersona s = [] then ''You are a helpful English Tutor.''
                  else tutorPersona s)"

definition historyMessage :: "history_entry \<Rightarrow> message option" where
  \<comment> \<open>\<open>{ role: h.role === 'model' ? 'assistant' : 'user', content: h.parts[0].text }\<close>;
     \<open>None\<close> is the \<open>TypeError\<close> of reading \<open>text\<close> of a missing first part\<close>
  "historyMessage h =
     (case parts h of
        [] \<Rightarrow> None
      | t # _ \<Rightarrow> Some \<lparr>role = (if entry_role h = ''model'' then ''assistant'' else ''user''),
                        content = PlainText t\<rparr>)"

fun historyMessages :: "history_entry list \<Rightarrow> message list option" where
  "historyMessages [] = Some []"
| "historyMessages (h # hs) =
     (case historyMessage h of
        None \<Rightarrow> None
      | Some m \<Rightarrow> map_option (\<lambda>ms. m # ms) (historyMessages hs))"

definition chatFallback :: string where
  "chatFallback = ''I'm having trouble connecting to your custom AI provider.''"

definition customChatRequest ::
  "AISettings option \<Rightarrow> message list \<Rightarrow> string \<Rightarrow> string \<Rightarrow> http_request"
where
  \<comment> \<open>the request of the chat on the generic provider: the persona and the user's
     context as the system message, the history, the new message\<close>
  "customChatRequest settings hs newMessage userStatsContext =
     \<lparr>endpoint = endpointOf (orEmpty (Option.bind settings baseUrl)),
      authorization = ''Bearer '' @ orEmpty (Option.bind settings customApiKey),
      body_model = orEmpty (map_option modelName settings),
      body_messages =
        \<lparr>role = ''system'',
         content = PlainText (personaOf settings @ '' User Context: '' @ userStatsContext)\<rparr>
        # hs @ [\<lparr>role = ''user'', content = PlainText newMessage\<rparr>],
      body_temperature = tempOf settings\<rparr>"

definition nativeChatRequest ::
  "AISettings option \<Rightarrow> history_entry list \<Rightarrow> string \<Rightarrow> string \<Rightarrow> chat_request"
where
  \<comment> \<open>\<open>ai.chats.create\<close> and the message sent to the chat\<close>
  "nativeChatRequest settings history newMessage userStatsContext =
     \<lparr>chat_model = modelOf settings,
      chat_history = history,
      systemInstruction = personaOf settings @ '' User Context: '' @ userStatsContext @ ''.'',
      chat_temperature = tempOf settings,
      chat_message = newMessage\<rparr>"

definition chatWithTutor ::
  "world \<Rightarrow> history_entry list \<Rightarrow> string \<Rightarrow> string \<Rightarrow> AISettings option \<Rightarrow> string option io"
where
  "chatWithTutor W history newMessage userStatsContext settings =
     (if providerOf settings = Custom then
        (if missingCredentials settings then ([], Inl (Error ''Missing credentials''))
         else case historyMessages history of
           None \<Rightarrow> ([], Inl TypeError)
         | Some hs \<Rightarrow>
             (let req = customChatRequest settings hs newMessage userStatsContext
              in ([Fetch req],
                  case fetch W req of
                    Inl e \<Rightarrow> Inr (Some chatFallback)
                  | Inr response \<Rightarrow>
                      (case reply response of
                         Inl e \<Rightarrow> Inr (Some chatFallback)
                       | Inr c \<Rightarrow> Inr (Some (if missing c then ''Error: No response.''
                                              else orEmpty c))))))
      else
        (let req = nativeChatRequest settings history newMessage userStatsContext
         in ([SendMessage req], sendMessage W req)))"

section \<open>Exam screen (ExamMode.tsx)\<close>

record mistake =
  mistake_question :: string
  correctAns :: "string option"

record ExamResult =
  result_id :: string
  date :: nat
  score :: "rat option"
  totalQuestions :: nat
  mistakes :: "mistake list"
  exam_type :: string

definition elemAt :: "'a list \<Rightarrow> nat \<Rightarrow> 'a option" where
  \<comment> \<open>\<open>xs[i]\<close>, \<open>undefined\<close> beyond the end\<close>
  "elemAt xs i = (if i < length xs then Some (xs ! i) else None)"

definition atNumber :: "'a list \<Rightarrow> rat \<Rightarrow> 'a option" where
  \<comment> \<open>\<open>xs[n]\<close> for a number: an element only at a natural number below the length\<close>
  "atNumber xs n =
     (if n = of_int \<lfloor>n\<rfloor> \<and> 0 \<le> n then elemAt xs (nat \<lfloor>n\<rfloor>) else None)"

fun grade :: "Question list \<Rightarrow> nat \<Rightarrow> rat list \<Rightarrow> nat \<times> mistake list \<Rightarrow> nat \<times> mistake list"
where
  "grade [] idx answers acc = acc"
| "grade (q # qs) idx answers (sc, ms) =
     (if elemAt answers idx = Some (correctOptionIndex q)
      then grade qs (Suc idx) answers (Suc sc, ms)
      else grade qs (Suc idx) answers
             (sc, ms @ [\<lparr>mistake_question = question q,
                         correctAns = atNumber (options q) (correctOptionIndex q)\<rparr>]))"

definition calculateResult :: "Question list \<Rightarrow> rat list \<Rightarrow> nat \<Rightarrow> nat \<Rightarrow> ExamResult" where
  \<comment> \<open>\<open>t1\<close> and \<open>t2\<close> are the two readings of \<open>Date.now()\<close>; the score of an exam without
     questions is \<open>NaN\<close>, that is \<open>None\<close>\<close>
  "calculateResult questions answers t1 t2 =
     (let (sc, ms) = grade questions 0 answers (0, [])
      in \<lparr>result_id = toString t1,
          date = t2,
          score = map_option (\<lambda>r. fmul r 100) (fdiv (of_nat sc) (of_nat (length questions))),
          totalQuestions = length questions,
          mistakes = ms,
          exam_type = ''General AI Quiz''\<rparr>)"


section \<open>Sample data\<close>

definition sampleDefinition :: "string \<Rightarrow> WordDefinition" where
  "sampleDefinition w =
     \<lparr>word = w, phonetic = [], chineseMeaning = [], englishDefinition = [],
      exampleSentence = [], partOfSpeech = [], level = ''B1'',
      synonyms = None, antonyms = None, relatedWords = None\<rparr>"


definition answering :: "string \<Rightarrow> world" where
  \<comment> \<open>a world in which every outbound call succeeds with the text \<open>t\<close>\<close>
  "answering t =
     \<lparr>generateContent = (\<lambda>r. Inr (Some t)),
      fetch = (\<lambda>r. Inr \<lparr>ok = True, statusText = ''OK'', reply = Inr (Some t)\<rparr>),
      sendMessage = (\<lambda>r. Inr (Some t))\<rparr>"

definition failing :: "error \<Rightarrow> world" where
  \<comment> \<open>a world in which every outbound call is rejected with \<open>e\<close>\<close>
  "failing e =
     \<lparr>generateContent = (\<lambda>r. Inl e), fetch = (\<lambda>r. Inl e), sendMessage = (\<lambda>r. Inl e)\<rparr>"

definition garbled :: world where
  \<comment> \<open>a world in which every request is answered, with a body that is not JSON\<close>
  "garbled =
     \<lparr>generateContent = (\<lambda>r. Inr None),
      fetch = (\<lambda>r. Inr \<lparr>ok = True, statusText = ''OK'', reply = Inl SyntaxError\<rparr>),
      sendMessage = (\<lambda>r. Inr None)\<rparr>"

definition customSettings :: "string option \<Rightarrow> string option \<Rightarrow> AISettings" where
  "customSettings url key =
     \<lparr>provider = Custom, baseUrl = url, customApiKey = key,
      modelName = ''deepseek-chat'', temperature = 1, tutorPersona = []\<rparr>"

definition sampleQuestion :: "string \<Rightarrow> Question" where
  \<comment> \<open>a question with four options whose first option is the correct one\<close>
  "sampleQuestion t =
     \<lparr>question_id = ''1'', question_type = ''fill-blank'', question = t,
      options = [''a'', ''b'', ''c'', ''d''], correctOptionIndex = 0, explanation = None\<rparr>"

section \<open>Properties named by the specification\<close>

definition nonneg :: "SavedWord list \<Rightarrow> bool" where
  \<comment> \<open>no saved word has a negative review count\<close>
  "nonneg ws = list_all (\<lambda>w. 0 \<le> reviewCount w) ws"

definition shown_nonneg :: "app \<Rightarrow> bool" where
  "shown_nonneg a = (case shown a of None \<Rightarrow> True | Some d \<Rightarrow> 0 \<le> reviewCount d)"

definition spaces :: "string \<Rightarrow> bool" where
  "spaces ws = list_all isSpace ws"

definition bare :: "string \<Rightarrow> bool" where
  \<comment> \<open>a text without white space at either end\<close>
  "bare b = (b = [] \<or> (\<not> isSpace (hd b) \<and> \<not> isSpace (last b)))"

definition isArray :: "json \<Rightarrow> bool" where
  "isArray v = (case v of JArr xs \<Rightarrow> True | _ \<Rightarrow> False)"

definition isObject :: "json \<Rightarrow> bool" where
  "isObject v = (case v of JObj kvs \<Rightarrow> True | _ \<Rightarrow> False)"


definition isCorrect :: "Question list \<Rightarrow> rat list \<Rightarrow> nat \<Rightarrow> bool" where
  \<comment> \<open>\<open>answers[i] == questions[i].correctOptionIndex\<close>\<close>
  "isCorrect questions answers i =
     (elemAt answers i = Some (correctOptionIndex (questions ! i)))"

definition correctCount :: "Question list \<Rightarrow> rat list \<Rightarrow> nat" where
  \<comment> \<open>the count of \<open>i\<close> with \<open>answers[i] == questions[i].correctOptionIndex\<close>\<close>
  "correctCount questions answers =
     length (filter (isCorrect questions answers) [0..<length questions])"

definition mistakeOf :: "Question \<Rightarrow> mistake" where
  \<comment> \<open>the entry \<open>{question, correct answer}\<close> of a question\<close>
  "mistakeOf q =
     \<lparr>mistake_question = question q,
      correctAns = atNumber (options q) (correctOptionIndex q)\<rparr>"

section \<open>Verification\<close>

subsection \<open>The saved words\<close>

lemma word_newSavedWord [simp]: "word (newSavedWord d t1 t2) = word d"
  by (simp add: newSavedWord_def WordDefinition.defs SavedWord.defs)

lemma reviewCount_newSavedWord [simp]: "reviewCount (newSavedWord d t1 t2) = 0"
  by (simp add: newSavedWord_def WordDefinition.defs SavedWord.defs)

lemma handleSaveWord_known: "\<exists>v\<in>set prev. sameWord v w \<Longrightarrow> handleSaveWord prev w = prev"
  by (auto simp: handleSaveWord_def find_None_iff split: option.splits)

lemma handleSaveWord_fresh: "\<forall>v\<in>set prev. \<not> sameWord v w \<Longrightarrow> handleSaveWord prev w = w # prev"
  by (auto simp: handleSaveWord_def find_None_iff split: option.splits)

lemma handleSaveWord_cases: "handleSaveWord prev w = prev \<or> handleSaveWord prev w = w # prev \<and> (\<forall>v\<in>set prev. \<not> sameWord v w)"
  by (auto simp: handleSaveWord_def find_None_iff split: option.splits)

lemma distinct_handleSaveWord:
  "distinct (wordKeys prev) \<Longrightarrow> distinct (wordKeys (handleSaveWord prev w))"
proof -
  assume d: "distinct (wordKeys prev)"
  consider "handleSaveWord prev w = prev"
    | "handleSaveWord prev w = w # prev" "\<forall>v\<in>set prev. \<not> sameWord v w"
    using handleSaveWord_cases [of prev w] by blast
  then show ?thesis
  proof cases
    case 1
    with d show ?thesis by simp
  next
    case 2
    from 2(2) have "toLowerCase (word w) \<notin> set (wordKeys prev)"
      by (auto simp: wordKeys_def sameWord_def)
    with d 2(1) show ?thesis by (simp add: wordKeys_def)
  qed
qed

lemma wordKeys_handleQuizResult [simp]: "wordKeys (handleQuizResult prev i b) = wordKeys prev"
  by (simp add: wordKeys_def handleQuizResult_def comp_def if_distrib cong: if_cong)

lemma distinct_handleDeleteWord:
  "distinct (wordKeys prev) \<Longrightarrow> distinct (wordKeys (handleDeleteWord prev i))"
  by (simp add: wordKeys_def handleDeleteWord_def distinct_map_filter)

lemma distinct_step: "distinct (wordKeys (savedWords a)) \<Longrightarrow> distinct (wordKeys (savedWords (step a x)))"
  by (cases x) (auto simp: distinct_handleSaveWord distinct_handleDeleteWord split: option.splits)

lemma distinct_foldl_step:
  "distinct (wordKeys (savedWords a)) \<Longrightarrow> distinct (wordKeys (savedWords (foldl step a xs)))"
  by (induction xs arbitrary: a) (simp_all add: distinct_step)

lemma distinct_foldl_save:
  "distinct (wordKeys prev) \<Longrightarrow> distinct (wordKeys (foldl handleSaveWord prev ws))"
  by (induction ws arbitrary: prev) (simp_all add: distinct_handleSaveWord)

lemma countWord_fresh:
  assumes "\<forall>v\<in>set prev. \<not> sameWord v w"
  shows "countWord (handleSaveWord prev w) (word w) = 1"
proof -
  have "filter (\<lambda>v. toLowerCase (word v) = toLowerCase (word w)) prev = []"
    using assms by (auto simp: filter_empty_conv sameWord_def)
  then show ?thesis
    using assms by (simp add: handleSaveWord_fresh countWord_def)
qed


lemma nonneg_handleSaveWord:
  "nonneg prev \<Longrightarrow> 0 \<le> reviewCount w \<Longrightarrow> nonneg (handleSaveWord prev w)"
  using handleSaveWord_cases [of prev w] by (auto simp: nonneg_def)

lemma nonneg_handleQuizResult: "nonneg prev \<Longrightarrow> nonneg (handleQuizResult prev i b)"
  by (auto simp: nonneg_def handleQuizResult_def list_all_iff)

lemma nonneg_handleDeleteWord: "nonneg prev \<Longrightarrow> nonneg (handleDeleteWord prev i)"
  by (auto simp: nonneg_def handleDeleteWord_def list_all_iff)

lemma nonneg_step:
  "nonneg (savedWords a) \<and> shown_nonneg a \<Longrightarrow>
   nonneg (savedWords (step a x)) \<and> shown_nonneg (step a x)"
proof (cases x)
  case (WordClick cw looked t1 t2)
  assume inv: "nonneg (savedWords a) \<and> shown_nonneg a"
  show ?thesis
  proof (cases "find (\<lambda>w. toLowerCase (word w) = toLowerCase cw) (savedWords a)")
    case None
    with inv WordClick show ?thesis
      by (cases looked) (simp_all add: shown_nonneg_def)
  next
    case (Some e)
    then have "e \<in> set (savedWords a)"
      by (auto simp: find_Some_iff)
    with inv have "0 \<le> reviewCount e"
      by (simp add: nonneg_def list_all_iff)
    with inv WordClick Some show ?thesis
      by (simp add: shown_nonneg_def)
  qed
qed (auto simp: shown_nonneg_def nonneg_handleSaveWord nonneg_handleQuizResult
       nonneg_handleDeleteWord split: option.splits)

lemma nonneg_foldl_step:
  "nonneg (savedWords a) \<and> shown_nonneg a \<Longrightarrow>
   nonneg (savedWords (foldl step a xs)) \<and> shown_nonneg (foldl step a xs)"
proof (induction xs arbitrary: a)
  case Nil
  then show ?case by simp
next
  case (Cons x xs)
  from Cons.prems have "nonneg (savedWords (step a x)) \<and> shown_nonneg (step a x)"
    by (rule nonneg_step)
  then show ?case using Cons.IH by simp
qed

lemma nonneg_run: "nonneg (savedWords (run xs))"
  using nonneg_foldl_step [of init xs] by (simp add: run_def init_def nonneg_def shown_nonneg_def)


text \<open>
  C1. Saving a word whose text equals, letter case ignored, the text of a saved word
  returns the collection unchanged; saving a word that is not yet saved leaves exactly
  one entry with that text; and after any sequence of saves, and after any sequence of
  actions on the store, no two entries have the same text up to letter case.
\<close>
theorem saved_words_unique:
  "((\<exists>v\<in>set prev. sameWord v w) \<longrightarrow> handleSaveWord prev w = prev)
   \<and> ((\<forall>v\<in>set prev. \<not> sameWord v w) \<longrightarrow> countWord (handleSaveWord prev w) (word w) = 1)
   \<and> (distinct (wordKeys prev) \<longrightarrow> distinct (wordKeys (handleSaveWord prev w)))
   \<and> distinct (wordKeys (foldl handleSaveWord [] ws))
   \<and> distinct (wordKeys (savedWords (run as)))"
proof -
  have "distinct (wordKeys (foldl handleSaveWord [] ws))"
    by (rule distinct_foldl_save) (simp add: wordKeys_def)
  moreover have "distinct (wordKeys (savedWords (run as)))"
    unfolding run_def by (rule distinct_foldl_step) (simp add: init_def wordKeys_def)
  ultimately show ?thesis
    using handleSaveWord_known [of prev w] countWord_fresh [of prev w]
      distinct_handleSaveWord [of prev w]
    by blast
qed

lemma sample_words:
  "sameWord (newSavedWord (sampleDefinition ''Apple'') 1 2) (newSavedWord (sampleDefinition ''APPLE'') 3 4)"
  "\<not> sameWord (newSavedWord (sampleDefinition ''Apple'') 1 2) (newSavedWord (sampleDefinition ''pear'') 5 6)"
  by code_simp+

theorem saved_words_unique_witness:
  "sameWord (newSavedWord (sampleDefinition ''Apple'') 1 2) (newSavedWord (sampleDefinition ''APPLE'') 3 4)
   \<and> handleSaveWord [newSavedWord (sampleDefinition ''Apple'') 1 2]
        (newSavedWord (sampleDefinition ''APPLE'') 3 4)
      = [newSavedWord (sampleDefinition ''Apple'') 1 2]
   \<and> \<not> sameWord (newSavedWord (sampleDefinition ''Apple'') 1 2) (newSavedWord (sampleDefinition ''pear'') 5 6)
   \<and> countWord (handleSaveWord [newSavedWord (sampleDefinition ''Apple'') 1 2]
                  (newSavedWord (sampleDefinition ''pear'') 5 6)) ''pear'' = 1
   \<and> distinct (wordKeys [newSavedWord (sampleDefinition ''Apple'') 1 2])
   \<and> distinct (wordKeys (handleSaveWord [newSavedWord (sampleDefinition ''Apple'') 1 2]
                  (newSavedWord (sampleDefinition ''pear'') 5 6)))"
  using saved_words_unique [of "[newSavedWord (sampleDefinition ''Apple'') 1 2]"
          "newSavedWord (sampleDefinition ''APPLE'') 3 4" "[]" "[]"]
        saved_words_unique [of "[newSavedWord (sampleDefinition ''Apple'') 1 2]"
          "newSavedWord (sampleDefinition ''pear'') 5 6" "[]" "[]"]
        sample_words
  by (simp add: wordKeys_def sampleDefinition_def)

lemma reviewCount_handleQuizResult:
  "map reviewCount (handleQuizResult prev i success)
   = map (\<lambda>w. if word_id w = i
                then (if success then reviewCount w + 1 else max 0 (reviewCount w - 1))
                else reviewCount w) prev"
  by (induction prev) (simp_all add: handleQuizResult_def)

lemma others_handleQuizResult:
  "map (\<lambda>w. w\<lparr>reviewCount := 0\<rparr>) (handleQuizResult prev i success)
   = map (\<lambda>w. w\<lparr>reviewCount := 0\<rparr>) prev"
  by (induction prev) (simp_all add: handleQuizResult_def)

text \<open>
  C10. A quiz result changes the review count of the words with the given identifier and
  nothing else: a success adds one, a failure subtracts one with a floor of zero, and
  every other word and every other field stays as it is. Saving keeps the collection or
  puts the new word in front of it, and deleting keeps a part of it, so no other
  operation changes a count. Hence in every state that the store reaches from the empty
  collection, where new entries start at zero, the review count of every saved word is
  at least zero, and each operation on its own keeps the counts at or above zero.
\<close>
theorem reviewCount_nonneg:
  "(w \<in> set (savedWords (run as)) \<longrightarrow> 0 \<le> reviewCount w)
   \<and> map reviewCount (handleQuizResult prev i True)
       = map (\<lambda>w. if word_id w = i then reviewCount w + 1 else reviewCount w) prev
   \<and> map reviewCount (handleQuizResult prev i False)
       = map (\<lambda>w. if word_id w = i then max 0 (reviewCount w - 1) else reviewCount w) prev
   \<and> map (\<lambda>w. w\<lparr>reviewCount := 0\<rparr>) (handleQuizResult prev i b)
       = map (\<lambda>w. w\<lparr>reviewCount := 0\<rparr>) prev
   \<and> (handleSaveWord prev v = prev \<or> handleSaveWord prev v = v # prev)
   \<and> handleDeleteWord prev i = filter (\<lambda>w. word_id w \<noteq> i) prev
   \<and> reviewCount (newSavedWord d t1 t2) = 0
   \<and> (nonneg prev \<longrightarrow> nonneg (handleQuizResult prev i b))
   \<and> (nonneg prev \<longrightarrow> nonneg (handleDeleteWord prev i))
   \<and> (nonneg prev \<and> 0 \<le> reviewCount v \<longrightarrow> nonneg (handleSaveWord prev v))"
proof (intro conjI impI)
  assume "w \<in> set (savedWords (run as))"
  then show "0 \<le> reviewCount w"
    using nonneg_run [of as] by (simp add: nonneg_def list_all_iff)
next
  show "map reviewCount (handleQuizResult prev i True)
       = map (\<lambda>w. if word_id w = i then reviewCount w + 1 else reviewCount w) prev"
    by (simp add: reviewCount_handleQuizResult)
next
  show "map reviewCount (handleQuizResult prev i False)
       = map (\<lambda>w. if word_id w = i then max 0 (reviewCount w - 1) else reviewCount w) prev"
    by (simp add: reviewCount_handleQuizResult)
next
  show "map (\<lambda>w. w\<lparr>reviewCount := 0\<rparr>) (handleQuizResult prev i b)
       = map (\<lambda>w. w\<lparr>reviewCount := 0\<rparr>) prev"
    by (rule others_handleQuizResult)
next
  show "handleSaveWord prev v = prev \<or> handleSaveWord prev v = v # prev"
    using handleSaveWord_cases [of prev v] by blast
next
  show "handleDeleteWord prev i = filter (\<lambda>w. word_id w \<noteq> i) prev"
    by (simp add: handleDeleteWord_def)
next
  show "reviewCount (newSavedWord d t1 t2) = 0"
    by simp
next
  assume "nonneg prev"
  then show "nonneg (handleQuizResult prev i b)"
    by (rule nonneg_handleQuizResult)
next
  assume "nonneg prev"
  then show "nonneg (handleDeleteWord prev i)"
    by (rule nonneg_handleDeleteWord)
next
  assume "nonneg prev \<and> 0 \<le> reviewCount v"
  then show "nonneg (handleSaveWord prev v)"
    by (simp add: nonneg_handleSaveWord)
qed

lemma sample_run:
  "savedWords (run [SaveNew (sampleDefinition ''apple'') 7 8, QuizResult ''7'' True,
                    QuizResult ''7'' True])
   = [(newSavedWord (sampleDefinition ''apple'') 7 8)\<lparr>reviewCount := 2\<rparr>]"
  "savedWords (run [SaveNew (sampleDefinition ''apple'') 7 8, QuizResult ''7'' True,
                    QuizResult ''7'' False, QuizResult ''7'' False])
   = [(newSavedWord (sampleDefinition ''apple'') 7 8)\<lparr>reviewCount := 0\<rparr>]"
  by code_simp+

lemma sample_counts_after:
  "map reviewCount (handleQuizResult [(newSavedWord (sampleDefinition ''apple'') 7 8)] ''7'' True)
   = [1]"
  "map reviewCount (handleQuizResult
      [(newSavedWord (sampleDefinition ''apple'') 7 8)\<lparr>reviewCount := 2\<rparr>] ''7'' False) = [1]"
  "map reviewCount (handleQuizResult [(newSavedWord (sampleDefinition ''apple'') 7 8)] ''7'' False)
   = [0]"
  "map reviewCount (handleQuizResult [(newSavedWord (sampleDefinition ''apple'') 7 8)] ''9'' True)
   = [0]"
  by code_simp+

theorem reviewCount_nonneg_witness:
  "(newSavedWord (sampleDefinition ''apple'') 7 8)\<lparr>reviewCount := 0\<rparr>
     \<in> set (savedWords (run [SaveNew (sampleDefinition ''apple'') 7 8, QuizResult ''7'' True,
                    QuizResult ''7'' False, QuizResult ''7'' False]))
   \<and> 0 \<le> reviewCount ((newSavedWord (sampleDefinition ''apple'') 7 8)\<lparr>reviewCount := 0\<rparr>)
   \<and> (newSavedWord (sampleDefinition ''apple'') 7 8)\<lparr>reviewCount := 2\<rparr>
     \<in> set (savedWords (run [SaveNew (sampleDefinition ''apple'') 7 8, QuizResult ''7'' True,
                    QuizResult ''7'' True]))
   \<and> 0 \<le> reviewCount ((newSavedWord (sampleDefinition ''apple'') 7 8)\<lparr>reviewCount := 2\<rparr>)
   \<and> nonneg [newSavedWord (sampleDefinition ''apple'') 7 8]
   \<and> nonneg (handleQuizResult [newSavedWord (sampleDefinition ''apple'') 7 8] ''7'' False)
   \<and> map reviewCount (handleQuizResult [newSavedWord (sampleDefinition ''apple'') 7 8] ''7'' True)
       = [1]
   \<and> map reviewCount (handleQuizResult [newSavedWord (sampleDefinition ''apple'') 7 8] ''7'' False)
       = [0]"
proof -
  let ?w = "newSavedWord (sampleDefinition ''apple'') 7 8"
  let ?r1 = "[SaveNew (sampleDefinition ''apple'') 7 8, QuizResult ''7'' True,
                    QuizResult ''7'' False, QuizResult ''7'' False]"
  let ?r2 = "[SaveNew (sampleDefinition ''apple'') 7 8, QuizResult ''7'' True,
                    QuizResult ''7'' True]"
  have m1: "?w\<lparr>reviewCount := 0\<rparr> \<in> set (savedWords (run ?r1))"
    unfolding sample_run by simp
  have m2: "?w\<lparr>reviewCount := 2\<rparr> \<in> set (savedWords (run ?r2))"
    unfolding sample_run by simp
  have "?w\<lparr>reviewCount := 0\<rparr> \<in> set (savedWords (run ?r1))
        \<longrightarrow> 0 \<le> reviewCount (?w\<lparr>reviewCount := 0\<rparr>)"
    by (rule conjunct1 [OF reviewCount_nonneg])
  with m1 have c1: "0 \<le> reviewCount (?w\<lparr>reviewCount := 0\<rparr>)"
    by (rule rev_mp)
  have "?w\<lparr>reviewCount := 2\<rparr> \<in> set (savedWords (run ?r2))
        \<longrightarrow> 0 \<le> reviewCount (?w\<lparr>reviewCount := 2\<rparr>)"
    by (rule conjunct1 [OF reviewCount_nonneg])
  with m2 have c2: "0 \<le> reviewCount (?w\<lparr>reviewCount := 2\<rparr>)"
    by (rule rev_mp)
  have n: "nonneg [?w]"
    by (simp add: nonneg_def)
  from reviewCount_nonneg [where prev = "[?w]" and i = "''7''" and b = False]
  have "nonneg [?w] \<longrightarrow> nonneg (handleQuizResult [?w] ''7'' False)"
    by blast
  with n have q: "nonneg (handleQuizResult [?w] ''7'' False)"
    by (rule rev_mp)
  from m1 c1 m2 c2 n q sample_counts_after(1,3) show ?thesis
    by (intro conjI)
qed

subsection \<open>Fence stripping\<close>

lemma isSpace_backquote: "\<not> isSpace (CHR 0x60)"
  by (simp add: isSpace_def)

lemma dropWhile_spaces_append:
  "\<forall>c\<in>set ws. isSpace c \<Longrightarrow> (xs \<noteq> [] \<Longrightarrow> \<not> isSpace (hd xs)) \<Longrightarrow> dropWhile isSpace (ws @ xs) = xs"
  by (cases xs) (simp_all add: dropWhile_append3 dropWhile_append2)

lemma trim_fenced:
  assumes "s \<noteq> []" "\<not> isSpace (hd s)" "\<not> isSpace (last s)"
  shows "trim s = s"
proof -
  from assms have 1: "dropWhile isSpace s = s"
    by (cases s) simp_all
  from assms have 2: "dropWhile isSpace (rev s) = rev s"
    by (cases "rev s") (simp_all add: last_rev [symmetric] hd_rev)
  show ?thesis by (simp add: trim_def 1 2)
qed

lemma stripClosing_fence:
  assumes "\<forall>c\<in>set ws. isSpace c" "b \<noteq> [] \<Longrightarrow> \<not> isSpace (last b)"
  shows "stripClosing (b @ ws @ ''```'') = b"
proof -
  have e: "endsWith (b @ ws @ ''```'') ''```''"
    by (simp add: endsWith_def)
  have "dropWhile isSpace (rev ws @ rev b) = rev b"
    using assms by (intro dropWhile_spaces_append) (auto simp: hd_rev)
  then show ?thesis
    using e by (simp add: stripClosing_def)
qed

lemma cleanJsonText_tagged:
  assumes ws1: "\<forall>c\<in>set ws1. isSpace c" and ws2: "\<forall>c\<in>set ws2. isSpace c"
    and b: "b \<noteq> [] \<Longrightarrow> \<not> isSpace (hd b) \<and> \<not> isSpace (last b)"
  shows "cleanJsonText (''```json'' @ ws1 @ b @ ws2 @ ''```'') = b"
proof -
  let ?t = "''```json'' @ ws1 @ b @ ws2 @ ''```''"
  have t: "trim ?t = ?t"
    by (rule trim_fenced) (simp_all add: isSpace_def)
  have s: "startsWith ?t ''```json''"
    by (simp add: startsWith_def)
  have "stripClosing (stripOpening 7 ?t) = b"
  proof (cases "b = []")
    case True
    have "dropWhile isSpace ((ws1 @ ws2) @ ''```'') = ''```''"
      using ws1 ws2 by (intro dropWhile_spaces_append) (auto simp: isSpace_def)
    with True have "stripOpening 7 ?t = [] @ [] @ ''```''"
      by (simp add: stripOpening_def)
    moreover have "stripClosing ([] @ [] @ ''```'') = []"
      by (rule stripClosing_fence) simp_all
    ultimately show ?thesis using True by simp
  next
    case False
    with b ws1 have "dropWhile isSpace (ws1 @ b @ ws2 @ ''```'') = b @ ws2 @ ''```''"
      by (intro dropWhile_spaces_append) auto
    then have "stripOpening 7 ?t = b @ ws2 @ ''```''"
      by (simp add: stripOpening_def)
    moreover have "stripClosing (b @ ws2 @ ''```'') = b"
      using ws2 b by (intro stripClosing_fence) auto
    ultimately show ?thesis by simp
  qed
  with t s  show ?thesis
    by (simp add: cleanJsonText_def Let_def)
qed

lemma cleanJsonText_untagged:
  assumes ws1: "\<forall>c\<in>set ws1. isSpace c" and ws2: "\<forall>c\<in>set ws2. isSpace c"
    and b: "b \<noteq> [] \<Longrightarrow> \<not> isSpace (hd b) \<and> \<not> isSpace (last b)"
    and untagged: "\<not> startsWith (ws1 @ b @ ws2 @ ''```'') ''json''"
  shows "cleanJsonText (''```'' @ ws1 @ b @ ws2 @ ''```'') = b"
proof -
  let ?t = "''```'' @ ws1 @ b @ ws2 @ ''```''"
  have t: "trim ?t = ?t"
    by (rule trim_fenced) (simp_all add: isSpace_def)
  have s: "startsWith ?t ''```''"
    by (simp add: startsWith_def)
  have n: "\<not> startsWith ?t ''```json''"
    using untagged by (auto simp add: startsWith_def)
  have "stripClosing (stripOpening 3 ?t) = b"
  proof (cases "b = []")
    case True
    have "dropWhile isSpace ((ws1 @ ws2) @ ''```'') = ''```''"
      using ws1 ws2 by (intro dropWhile_spaces_append) (auto simp: isSpace_def)
    with True have "stripOpening 3 ?t = [] @ [] @ ''```''"
      by (simp add: stripOpening_def)
    moreover have "stripClosing ([] @ [] @ ''```'') = []"
      by (rule stripClosing_fence) simp_all
    ultimately show ?thesis using True by simp
  next
    case False
    with b ws1 have "dropWhile isSpace (ws1 @ b @ ws2 @ ''```'') = b @ ws2 @ ''```''"
      by (intro dropWhile_spaces_append) auto
    then have "stripOpening 3 ?t = b @ ws2 @ ''```''"
      by (simp add: stripOpening_def)
    moreover have "stripClosing (b @ ws2 @ ''```'') = b"
      using ws2 b by (intro stripClosing_fence) auto
    ultimately show ?thesis by simp
  qed
  with t s n show ?thesis
    by (simp add: cleanJsonText_def Let_def)
qed

lemma startsWith_append: "startsWith s (p @ q) \<Longrightarrow> startsWith s p"
proof -
  assume "startsWith s (p @ q)"
  then have "take (length p) (take (length (p @ q)) s) = take (length p) (p @ q)"
    by (simp only: startsWith_def)
  then show ?thesis by (simp add: startsWith_def min_def)
qed

lemma cleanJsonText_unfenced:
  assumes "text \<noteq> []" "\<not> startsWith (trim text) ''```''"
  shows "cleanJsonText text = trim text"
proof -
  have "\<not> startsWith (trim text) (''```'' @ ''json'')"
    using assms(2) startsWith_append by blast
  with assms show ?thesis
    by (simp add: cleanJsonText_def Let_def)
qed

lemma clean_examples:
  \<open>cleanJsonText ''```json\<newline>{"a":1}\<newline>```'' = ''{"a":1}''\<close>
  \<open>cleanJsonText ''```\<newline>{"a":1}\<newline>```'' = ''{"a":1}''\<close>
  \<open>cleanJsonText ''{"a":1}'' = ''{"a":1}''\<close>
  by code_simp+

lemma parse_a1: \<open>JSON_parse ''{"a":1}'' = Some (JObj [(units ''a'', JNum (Fin 1))])\<close>
  by code_simp


text \<open>
  C6. \<open>cleanJsonText\<close> turns each of the three sample inputs into a text that
  \<open>JSON.parse\<close> reads as the object with the single property \<open>a = 1\<close>. In general, a text
  inside an opening fence, tagged \<open>json\<close> or not, and a closing fence comes out without
  the fences and the white space next to them, and a text without an opening fence
  comes out trimmed and otherwise unmodified.
\<close>
theorem cleanJsonText_fences:
  \<open>JSON_parse (cleanJsonText ''```json\<newline>{"a":1}\<newline>```'') = Some (JObj [(units ''a'', JNum (Fin 1))])
   \<and> JSON_parse (cleanJsonText ''```\<newline>{"a":1}\<newline>```'') = Some (JObj [(units ''a'', JNum (Fin 1))])
   \<and> JSON_parse (cleanJsonText ''{"a":1}'') = Some (JObj [(units ''a'', JNum (Fin 1))])
   \<and> cleanJsonText ''{"a":1}'' = ''{"a":1}''
   \<and> (spaces ws1 \<and> spaces ws2 \<and> bare b
        \<longrightarrow> cleanJsonText (''```json'' @ ws1 @ b @ ws2 @ ''```'') = b)
   \<and> (spaces ws1 \<and> spaces ws2 \<and> bare b \<and> \<not> startsWith (ws1 @ b @ ws2 @ ''```'') ''json''
        \<longrightarrow> cleanJsonText (''```'' @ ws1 @ b @ ws2 @ ''```'') = b)
   \<and> (t \<noteq> [] \<and> \<not> startsWith (trim t) ''```'' \<longrightarrow> cleanJsonText t = trim t)\<close>
proof -
  have tagged: "cleanJsonText (''```json'' @ ws1 @ b @ ws2 @ ''```'') = b"
    if "spaces ws1 \<and> spaces ws2 \<and> bare b"
    using that by (intro cleanJsonText_tagged) (auto simp: spaces_def bare_def list_all_iff)
  have untagged: "cleanJsonText (''```'' @ ws1 @ b @ ws2 @ ''```'') = b"
    if "spaces ws1 \<and> spaces ws2 \<and> bare b \<and> \<not> startsWith (ws1 @ b @ ws2 @ ''```'') ''json''"
    using that by (intro cleanJsonText_untagged) (auto simp: spaces_def bare_def list_all_iff)
  show ?thesis
    using tagged untagged cleanJsonText_unfenced [of t]
    by (simp only: clean_examples parse_a1) blast
qed

lemma fence_sample:
  \<open>spaces ''\<newline>''\<close>
  \<open>bare ''{"a":1}''\<close>
  \<open>\<not> startsWith (''\<newline>'' @ ''{"a":1}'' @ ''\<newline>'' @ ''```'') ''json''\<close>
  \<open>\<not> startsWith (trim ''  {"a":1} '') ''```''\<close>
  \<open>trim ''  {"a":1} '' = ''{"a":1}''\<close>
  by code_simp+

theorem cleanJsonText_fences_witness:
  \<open>spaces ''\<newline>'' \<and> bare ''{"a":1}''
   \<and> \<not> startsWith (''\<newline>'' @ ''{"a":1}'' @ ''\<newline>'' @ ''```'') ''json''
   \<and> cleanJsonText (''```json'' @ ''\<newline>'' @ ''{"a":1}'' @ ''\<newline>'' @ ''```'') = ''{"a":1}''
   \<and> cleanJsonText (''```'' @ ''\<newline>'' @ ''{"a":1}'' @ ''\<newline>'' @ ''```'') = ''{"a":1}''
   \<and> ''  {"a":1} '' \<noteq> [] \<and> \<not> startsWith (trim ''  {"a":1} '') ''```''
   \<and> cleanJsonText ''  {"a":1} '' = ''{"a":1}''\<close>
  using cleanJsonText_fences [of \<open>''\<newline>''\<close> \<open>''\<newline>''\<close> \<open>''{"a":1}''\<close> \<open>''  {"a":1} ''\<close>]
    fence_sample
  by simp


subsection \<open>The provider gateway\<close>

lemma callAI_missing:
  "providerOf settings = Custom \<Longrightarrow> missingCredentials settings \<Longrightarrow>
   callAI W p settings sc ts = ([], Inl (Error ''Missing Base URL or API Key for custom provider''))"
  by (simp add: callAI_def)

lemma callAI_once: "length (fst (callAI W p settings sc ts)) \<le> 1"
  by (simp add: callAI_def Let_def)

lemma callAI_answering:
  "\<not> (providerOf settings = Custom \<and> missingCredentials settings) \<Longrightarrow>
   snd (callAI (answering t) p settings sc ts) = Inr t"
  by (cases "providerOf settings") (auto simp: callAI_def Let_def answering_def orEmpty_def)

lemma callAI_failing:
  "\<not> (providerOf settings = Custom \<and> missingCredentials settings) \<Longrightarrow>
   snd (callAI (failing e) p settings sc ts) = Inl e"
  by (cases "providerOf settings") (auto simp: callAI_def Let_def failing_def)

lemma searchCall_once: "length (fst (searchCall W topic settings)) \<le> 1"
  using callAI_once [of W "Prompt (SearchPrompt topic)" settings None "Some [GoogleSearch]"]
    callAI_once [of W "Prompt (WritePrompt topic)" settings None None]
  by (simp add: searchCall_def)

lemma searchCall_answering:
  "\<not> (providerOf settings = Custom \<and> missingCredentials settings) \<Longrightarrow>
   snd (searchCall (answering t) topic settings) = Inr t"
  by (simp add: searchCall_def callAI_answering)

subsection \<open>Assess level\<close>

lemma assessLevel_returns: "\<exists>l. snd (assessLevel W vocabularyList settings) = Inr l"
  by (auto simp: assessLevel_def Let_def split: prod.splits sum.splits)

lemma assessLevel_swallow:
  assumes "snd (assessCall W vocabularyList settings) = Inl e"
  shows "snd (assessLevel W vocabularyList settings) = Inr ''Unknown''"
  using assms by (auto simp: assessLevel_def Let_def split: prod.splits sum.splits)

text \<open>
  C7. \<open>assessLevel\<close> on the empty word list returns \<open>Unknown\<close> and makes no outbound
  call; on any word list, a failure of the provider call gives \<open>Unknown\<close> too, and the
  operation never raises an error.
\<close>
theorem assessLevel_unknown:
  "assessLevel W [] settings = ([], Inr ''Unknown'')
   \<and> (snd (assessCall W vocabularyList settings) = Inl e
        \<longrightarrow> snd (assessLevel W vocabularyList settings) = Inr ''Unknown'')
   \<and> snd (assessLevel W vocabularyList settings) \<noteq> Inl e'"
proof -
  have "assessLevel W [] settings = ([], Inr ''Unknown'')"
    by (simp add: assessLevel_def)
  moreover have "snd (assessLevel W vocabularyList settings) \<noteq> Inl e'"
    using assessLevel_returns [of W vocabularyList settings] by auto
  ultimately show ?thesis
    using assessLevel_swallow [of W vocabularyList settings e] by blast
qed

theorem assessLevel_unknown_witness:
  "snd (assessCall (failing (Error ''offline'')) [''cat'', ''dog''] None) = Inl (Error ''offline'')
   \<and> snd (assessLevel (failing (Error ''offline'')) [''cat'', ''dog''] None) = Inr ''Unknown''"
proof -
  have h: "snd (assessCall (failing (Error ''offline'')) [''cat'', ''dog''] None) = Inl (Error ''offline'')"
    unfolding assessCall_def by (rule callAI_failing) (simp add: providerOf_def)
  with assessLevel_unknown [of "failing (Error ''offline'')" None "[''cat'', ''dog'']" "Error ''offline''"]
  show ?thesis by blast
qed


subsection \<open>Search articles\<close>

lemma searchArticles_eq:
  "searchCall W topic settings = (calls, Inr raw) \<Longrightarrow>
   searchArticles W clock topic settings = (calls, articlesOf (sourceLabelOf settings) clock raw)"
  by (simp add: searchArticles_def)

lemma articlesOf_unparsed:
  "JSON_parse (cleanJsonText raw) = None \<Longrightarrow> articlesOf l clock raw = Inr []"
  by (simp add: articlesOf_def)

lemma articlesOf_no_array:
  "JSON_parse (cleanJsonText raw) = Some v \<Longrightarrow> \<not> isArray v \<Longrightarrow> articlesOf l clock raw = Inr []"
  by (cases v) (simp_all add: articlesOf_def isArray_def)

lemma articlesOf_objects:
  assumes "JSON_parse (cleanJsonText raw) = Some (JArr elems)" "list_all isObject elems"
  shows "articlesOf l clock raw
         = Inr (map (\<lambda>(index, a). toArticle l clock index a) (enumerate 0 elems))"
proof -
  have "JNull \<notin> set elems"
    using assms(2) by (auto simp: list_all_iff isObject_def)
  with assms(1) show ?thesis
    by (simp add: articlesOf_def)
qed

lemma map_enumerate_snd:
  "map (\<lambda>(index, a). f a) (enumerate n xs) = map f xs"
  by (induction xs arbitrary: n) simp_all

lemma toArticle_fields:
  "map title (map (\<lambda>(index, a). toArticle l clock index a) (enumerate 0 elems))
     = map (\<lambda>a. propOf a ''title'') elems"
  "map article_content (map (\<lambda>(index, a). toArticle l clock index a) (enumerate 0 elems))
     = map (\<lambda>a. propOf a ''content'') elems"
  "list_all (\<lambda>a. source a = l \<and> article_type a = ''web'')
     (map (\<lambda>(index, a). toArticle l clock index a) (enumerate 0 elems))"
proof -
  have "map title (map (\<lambda>(index, a). toArticle l clock index a) (enumerate 0 elems))
        = map (\<lambda>(index, a). propOf a ''title'') (enumerate 0 elems)"
    by (simp add: toArticle_def case_prod_unfold comp_def)
  then show "map title (map (\<lambda>(index, a). toArticle l clock index a) (enumerate 0 elems))
     = map (\<lambda>a. propOf a ''title'') elems"
    by (simp only: map_enumerate_snd)
  have "map article_content (map (\<lambda>(index, a). toArticle l clock index a) (enumerate 0 elems))
        = map (\<lambda>(index, a). propOf a ''content'') (enumerate 0 elems)"
    by (simp add: toArticle_def case_prod_unfold comp_def)
  then show "map article_content (map (\<lambda>(index, a). toArticle l clock index a) (enumerate 0 elems))
     = map (\<lambda>a. propOf a ''content'') elems"
    by (simp only: map_enumerate_snd)
  show "list_all (\<lambda>a. source a = l \<and> article_type a = ''web'')
     (map (\<lambda>(index, a). toArticle l clock index a) (enumerate 0 elems))"
    by (simp add: list_all_iff toArticle_def case_prod_unfold)
qed

lemma search_example_parse:
  \<open>JSON_parse (cleanJsonText ''[{"title":"A","content":"B C D"}]'')
   = Some (JArr [JObj [(units ''title'', JStr (units ''A'')), (units ''content'', JStr (units ''B C D''))]])\<close>
  by code_simp

lemma search_example_call:
  \<open>snd (searchCall (answering ''[{"title":"A","content":"B C D"}]'') ''space travel'' None)
   = Inr ''[{"title":"A","content":"B C D"}]''\<close>
  by (rule searchCall_answering) (simp add: providerOf_def)

lemma search_example:
  \<open>snd (searchArticles (answering ''[{"title":"A","content":"B C D"}]'') (\<lambda>k. 1700000000000)
          ''space travel'' None)
   = Inr [\<lparr>article_id = ''17000000000000'', title = Some (JStr (units ''A'')),
           article_content = Some (JStr (units ''B C D'')), source = ''Google Search'',
           dateAdded = 1700000000000, article_type = ''web''\<rparr>]\<close>
proof -
  let ?raw = \<open>''[{"title":"A","content":"B C D"}]''\<close>
  let ?W = "answering ?raw"
  have "searchCall ?W ''space travel'' None = (fst (searchCall ?W ''space travel'' None), Inr ?raw)"
    using search_example_call by (simp add: prod_eq_iff)
  then have "snd (searchArticles ?W (\<lambda>k. 1700000000000) ''space travel'' None)
             = articlesOf (sourceLabelOf None) (\<lambda>k. 1700000000000) ?raw"
    by (simp add: searchArticles_eq)
  also have "\<dots> = Inr [toArticle ''Google Search'' (\<lambda>k. 1700000000000) 0
                          (JObj [(units ''title'', JStr (units ''A'')), (units ''content'', JStr (units ''B C D''))])]"
    by (simp add: articlesOf_def search_example_parse sourceLabelOf_def providerOf_def)
  also have "toArticle ''Google Search'' (\<lambda>k. 1700000000000) 0
                          (JObj [(units ''title'', JStr (units ''A'')), (units ''content'', JStr (units ''B C D''))])
     = \<lparr>article_id = ''17000000000000'', title = Some (JStr (units ''A'')),
           article_content = Some (JStr (units ''B C D'')), source = ''Google Search'',
           dateAdded = 1700000000000, article_type = ''web''\<rparr>"
    by (simp add: toArticle_def propOf_def units_def toString.simps digit_char_def)
  finally show ?thesis .
qed

text \<open>
  C8. When the text that the search receives from the provider does not parse as JSON,
  or parses to a value that is no array, the search returns the empty list and raises
  nothing. When it parses to an array of objects, the search returns one article per
  element, with the element's title and content, the provider's source label and the
  type \<open>web\<close>. On the native provider the sample response gives the one article with
  title \<open>A\<close>, content \<open>B C D\<close>, source \<open>Google Search\<close> and type \<open>web\<close>.
\<close>
theorem searchArticles_results:
  \<open>snd (searchArticles (answering ''[{"title":"A","content":"B C D"}]'') (\<lambda>k. 1700000000000)
          ''space travel'' None)
     = Inr [\<lparr>article_id = ''17000000000000'', title = Some (JStr (units ''A'')),
             article_content = Some (JStr (units ''B C D'')), source = ''Google Search'',
             dateAdded = 1700000000000, article_type = ''web''\<rparr>]
   \<and> (searchCall W topic settings = (calls, Inr raw) \<longrightarrow>
        (JSON_parse (cleanJsonText raw) = None
           \<longrightarrow> searchArticles W clock topic settings = (calls, Inr []))
      \<and> (JSON_parse (cleanJsonText raw) = Some v \<and> \<not> isArray v
           \<longrightarrow> searchArticles W clock topic settings = (calls, Inr []))
      \<and> (JSON_parse (cleanJsonText raw) = Some (JArr elems) \<and> list_all isObject elems
           \<longrightarrow> (\<exists>arts. searchArticles W clock topic settings = (calls, Inr arts)
                  \<and> length arts = length elems
                  \<and> map title arts = map (\<lambda>a. propOf a ''title'') elems
                  \<and> map article_content arts = map (\<lambda>a. propOf a ''content'') elems
                  \<and> list_all (\<lambda>a. source a = sourceLabelOf settings \<and> article_type a = ''web'')
                       arts)))\<close>
proof -
  have arr: "\<exists>arts. searchArticles W clock topic settings = (calls, Inr arts)
                  \<and> length arts = length elems
                  \<and> map title arts = map (\<lambda>a. propOf a ''title'') elems
                  \<and> map article_content arts = map (\<lambda>a. propOf a ''content'') elems
                  \<and> list_all (\<lambda>a. source a = sourceLabelOf settings \<and> article_type a = ''web'')
                       arts"
    if c: "searchCall W topic settings = (calls, Inr raw)"
      and p: "JSON_parse (cleanJsonText raw) = Some (JArr elems)" and o: "list_all isObject elems"
  proof -
    let ?arts = "map (\<lambda>(index, a). toArticle (sourceLabelOf settings) clock index a)
                   (enumerate 0 elems)"
    have "searchArticles W clock topic settings = (calls, Inr ?arts)"
      using searchArticles_eq [OF c] articlesOf_objects [OF p o] by simp
    moreover have "length ?arts = length elems" by simp
    ultimately show ?thesis
      using toArticle_fields [of "sourceLabelOf settings" clock elems] by blast
  qed
  have unparsed: "searchArticles W clock topic settings = (calls, Inr [])"
    if "searchCall W topic settings = (calls, Inr raw)" "JSON_parse (cleanJsonText raw) = None"
    using that by (simp add: searchArticles_eq articlesOf_unparsed)
  have no_array: "searchArticles W clock topic settings = (calls, Inr [])"
    if "searchCall W topic settings = (calls, Inr raw)"
      "JSON_parse (cleanJsonText raw) = Some v \<and> \<not> isArray v"
    using that by (simp add: searchArticles_eq articlesOf_no_array [of raw v])
  show ?thesis
  proof (intro conjI impI)
    show \<open>snd (searchArticles (answering ''[{"title":"A","content":"B C D"}]'') (\<lambda>k. 1700000000000)
          ''space travel'' None)
     = Inr [\<lparr>article_id = ''17000000000000'', title = Some (JStr (units ''A'')),
             article_content = Some (JStr (units ''B C D'')), source = ''Google Search'',
             dateAdded = 1700000000000, article_type = ''web''\<rparr>]\<close>
      by (rule search_example)
  qed (use arr unparsed no_array in blast)+
qed


lemma search_samples:
  \<open>snd (searchCall (answering ''not json'') ''space travel'' None) = Inr ''not json''\<close>
  \<open>snd (searchCall (answering ''{"a":1}'') ''space travel'' None) = Inr ''{"a":1}''\<close>
  by (rule searchCall_answering, simp add: providerOf_def)+

lemma search_sample_parses:
  \<open>JSON_parse (cleanJsonText ''not json'') = None\<close>
  \<open>JSON_parse (cleanJsonText ''{"a":1}'') = Some (JObj [(units ''a'', JNum (Fin 1))])\<close>
  by code_simp+

theorem searchArticles_results_witness:
  \<open>snd (searchCall (answering ''not json'') ''space travel'' None) = Inr ''not json''
   \<and> JSON_parse (cleanJsonText ''not json'') = None
   \<and> snd (searchArticles (answering ''not json'') (\<lambda>k. 5) ''space travel'' None) = Inr []
   \<and> snd (searchCall (answering ''{"a":1}'') ''space travel'' None) = Inr ''{"a":1}''
   \<and> JSON_parse (cleanJsonText ''{"a":1}'') = Some (JObj [(units ''a'', JNum (Fin 1))])
   \<and> \<not> isArray (JObj [(units ''a'', JNum (Fin 1))])
   \<and> snd (searchArticles (answering ''{"a":1}'') (\<lambda>k. 5) ''space travel'' None) = Inr []
   \<and> snd (searchCall (answering ''[{"title":"A","content":"B C D"}]'') ''space travel'' None)
       = Inr ''[{"title":"A","content":"B C D"}]''
   \<and> JSON_parse (cleanJsonText ''[{"title":"A","content":"B C D"}]'')
       = Some (JArr [JObj [(units ''title'', JStr (units ''A'')), (units ''content'', JStr (units ''B C D''))]])
   \<and> list_all isObject [JObj [(units ''title'', JStr (units ''A'')), (units ''content'', JStr (units ''B C D''))]]
   \<and> map title (projr (snd (searchArticles (answering ''[{"title":"A","content":"B C D"}]'')
                               (\<lambda>k. 5) ''space travel'' None)))
       = [Some (JStr (units ''A''))]
   \<and> map article_content (projr (snd (searchArticles (answering ''[{"title":"A","content":"B C D"}]'')
                               (\<lambda>k. 5) ''space travel'' None)))
       = [Some (JStr (units ''B C D''))]\<close>
proof -
  let ?c = "\<lambda>k::nat. 5::nat"
  let ?t = "''space travel''"
  let ?none = "None :: AISettings option"
  let ?r1 = "''not json''"
  let ?r2 = \<open>''{"a":1}''\<close>
  let ?r3 = \<open>''[{"title":"A","content":"B C D"}]''\<close>
  let ?v2 = "JObj [(units ''a'', JNum (Fin 1))]"
  let ?e3 = "[JObj [(units ''title'', JStr (units ''A'')), (units ''content'', JStr (units ''B C D''))]]"
  have c1: "searchCall (answering ?r1) ?t ?none = (fst (searchCall (answering ?r1) ?t ?none), Inr ?r1)"
    using search_samples(1) by (simp add: prod_eq_iff)
  have c2: "searchCall (answering ?r2) ?t ?none = (fst (searchCall (answering ?r2) ?t ?none), Inr ?r2)"
    using search_samples(2) by (simp add: prod_eq_iff)
  have c3: "searchCall (answering ?r3) ?t ?none = (fst (searchCall (answering ?r3) ?t ?none), Inr ?r3)"
    using search_example_call by (simp add: prod_eq_iff)
  have a2: "\<not> isArray ?v2" by (simp add: isArray_def)
  have o3: "list_all isObject ?e3" by (simp add: isObject_def)
  have 1: "snd (searchArticles (answering ?r1) ?c ?t ?none) = Inr []"
    using searchArticles_results [of "answering ?r1" ?t ?none _ ?r1 ?c] c1 search_sample_parses(1)
    by simp
  have 2: "snd (searchArticles (answering ?r2) ?c ?t ?none) = Inr []"
    using searchArticles_results [of "answering ?r2" ?t ?none _ ?r2 ?c ?v2] c2
      search_sample_parses(2) a2
    by simp
  have "\<exists>arts. searchArticles (answering ?r3) ?c ?t ?none
                 = (fst (searchCall (answering ?r3) ?t ?none), Inr arts)
          \<and> length arts = length ?e3
          \<and> map title arts = map (\<lambda>a. propOf a ''title'') ?e3
          \<and> map article_content arts = map (\<lambda>a. propOf a ''content'') ?e3
          \<and> list_all (\<lambda>a. source a = sourceLabelOf ?none \<and> article_type a = ''web'') arts"
    using searchArticles_results [of "answering ?r3" ?t ?none _ ?r3 ?c _ ?e3] c3
      search_example_parse o3
    by blast
  then have 3: "map title (projr (snd (searchArticles (answering ?r3) ?c ?t ?none))) = [Some (JStr (units ''A''))]
     \<and> map article_content (projr (snd (searchArticles (answering ?r3) ?c ?t ?none))) = [Some (JStr (units ''B C D''))]"
    by (auto simp: propOf_def units_def)
  from 1 2 3 search_samples search_example_call search_sample_parses search_example_parse a2 o3
  show ?thesis by simp
qed


subsection \<open>The operations, by the outcome of their call\<close>

lemma defineWord_raise:
  "defineCall W w c settings = (calls, Inl e) \<Longrightarrow>
   defineWord W w c settings = (calls, Inl (Error ''Failed to define word.''))"
  by (simp add: defineWord_def)

lemma defineWord_unparsed:
  "defineCall W w c settings = (calls, Inr t) \<Longrightarrow> JSON_parse (cleanJsonText t) = None \<Longrightarrow>
   defineWord W w c settings = (calls, Inl (Error ''Failed to define word.''))"
  by (simp add: defineWord_def)

lemma defineWord_parsed:
  "defineCall W w c settings = (calls, Inr t) \<Longrightarrow> JSON_parse (cleanJsonText t) = Some data \<Longrightarrow>
   defineWord W w c settings = (calls, Inr data)"
  by (simp add: defineWord_def)

lemma translateText_raise:
  "translateCall W text settings = (calls, Inl e) \<Longrightarrow>
   translateText W text settings = (calls, Inl (Error ''Failed to translate text.''))"
  by (simp add: translateText_def)

lemma generateQuizForWord_raise:
  "quizCall W w settings = (calls, Inl e) \<Longrightarrow>
   generateQuizForWord W now w settings = (calls, Inl e)"
  by (simp add: generateQuizForWord_def)

lemma generateQuizForWord_unparsed:
  "quizCall W w settings = (calls, Inr t) \<Longrightarrow> JSON_parse (cleanJsonText t) = None \<Longrightarrow>
   generateQuizForWord W now w settings = (calls, Inl SyntaxError)"
  by (simp add: generateQuizForWord_def)


lemma generateExam_raise:
  "examCall W lvl known req settings = (calls, Inl e) \<Longrightarrow>
   generateExam W lvl known req settings = (calls, Inl (Error ''Failed to generate exam.''))"
  by (simp add: generateExam_def)

lemma generateExam_unparsed:
  "examCall W lvl known req settings = (calls, Inr t) \<Longrightarrow> JSON_parse (cleanJsonText t) = None \<Longrightarrow>
   generateExam W lvl known req settings = (calls, Inl (Error ''Failed to generate exam.''))"
  by (simp add: generateExam_def)

lemma processImportedText_raise:
  "importCall W raw file settings = (calls, Inl e) \<Longrightarrow>
   processImportedText W raw file settings
     = (calls, Inr \<lparr>imported_title = JStr (units file), imported_content = JStr (units raw)\<rparr>)"
  by (simp add: processImportedText_def)

lemma processImportedText_unparsed:
  "importCall W raw file settings = (calls, Inr t) \<Longrightarrow> JSON_parse (cleanJsonText t) = None \<Longrightarrow>
   processImportedText W raw file settings
     = (calls, Inr \<lparr>imported_title = JStr (units file), imported_content = JStr (units raw)\<rparr>)"
  by (simp add: processImportedText_def)

lemma searchArticles_raise:
  "searchCall W topic settings = (calls, Inl e) \<Longrightarrow>
   searchArticles W clock topic settings = (calls, Inl searchFailed)"
  by (simp add: searchArticles_def)

lemma assessLevel_raise:
  "assessCall W vocab settings = (calls, Inl e) \<Longrightarrow> vocab \<noteq> [] \<Longrightarrow>
   assessLevel W vocab settings = (calls, Inr ''Unknown'')"
  by (simp add: assessLevel_def)

lemma calls_missing:
  assumes "providerOf settings = Custom" "missingCredentials settings"
  shows "defineCall W w c settings = ([], Inl (Error ''Missing Base URL or API Key for custom provider''))"
    "translateCall W text settings = ([], Inl (Error ''Missing Base URL or API Key for custom provider''))"
    "quizCall W w settings = ([], Inl (Error ''Missing Base URL or API Key for custom provider''))"
    "examCall W lvl known req settings = ([], Inl (Error ''Missing Base URL or API Key for custom provider''))"
    "importCall W raw file settings = ([], Inl (Error ''Missing Base URL or API Key for custom provider''))"
    "searchCall W topic settings = ([], Inl (Error ''Missing Base URL or API Key for custom provider''))"
    "assessCall W vocab settings = ([], Inl (Error ''Missing Base URL or API Key for custom provider''))"
  using assms
  by (simp_all add: defineCall_def translateCall_def quizCall_def examCall_def importCall_def
        searchCall_def assessCall_def callAI_missing)

lemma calls_once:
  "length (fst (defineCall W w c settings)) \<le> 1"
  "length (fst (translateCall W text settings)) \<le> 1"
  "length (fst (quizCall W w settings)) \<le> 1"
  "length (fst (examCall W lvl known req settings)) \<le> 1"
  "length (fst (importCall W raw file settings)) \<le> 1"
  "length (fst (assessCall W vocab settings)) \<le> 1"
  unfolding defineCall_def translateCall_def quizCall_def examCall_def importCall_def
    assessCall_def Let_def
  by (rule callAI_once)+

lemma calls_answering:
  assumes "\<not> (providerOf settings = Custom \<and> missingCredentials settings)"
  shows "snd (defineCall (answering t) w c settings) = Inr t"
    "snd (translateCall (answering t) text settings) = Inr t"
    "snd (quizCall (answering t) w settings) = Inr t"
    "snd (examCall (answering t) lvl known req settings) = Inr t"
    "snd (importCall (answering t) raw file settings) = Inr t"
    "snd (assessCall (answering t) vocab settings) = Inr t"
  unfolding defineCall_def translateCall_def quizCall_def examCall_def importCall_def
    assessCall_def Let_def
  by (rule callAI_answering [OF assms])+

lemma calls_failing:
  assumes "\<not> (providerOf settings = Custom \<and> missingCredentials settings)"
  shows "snd (defineCall (failing e) w c settings) = Inl e"
    "snd (translateCall (failing e) text settings) = Inl e"
    "snd (quizCall (failing e) w settings) = Inl e"
    "snd (examCall (failing e) lvl known req settings) = Inl e"
    "snd (importCall (failing e) raw file settings) = Inl e"
    "snd (assessCall (failing e) vocab settings) = Inl e"
  unfolding defineCall_def translateCall_def quizCall_def examCall_def importCall_def
    assessCall_def Let_def
  by (rule callAI_failing [OF assms])+

lemma operations_calls:
  "fst (defineWord W w c settings) = fst (defineCall W w c settings)"
  "fst (translateText W text settings) = fst (translateCall W text settings)"
  "fst (generateQuizForWord W now w settings) = fst (quizCall W w settings)"
  "fst (generateExam W lvl known req settings) = fst (examCall W lvl known req settings)"
  by (simp_all add: defineWord_def translateText_def generateQuizForWord_def generateExam_def
        case_prod_unfold Let_def)

lemma operations_once:
  "length (fst (defineWord W w c settings)) \<le> 1"
  "length (fst (translateText W text settings)) \<le> 1"
  "length (fst (generateQuizForWord W now w settings)) \<le> 1"
  "length (fst (generateExam W lvl known req settings)) \<le> 1"
  by (simp_all only: operations_calls calls_once)

subsection \<open>Chat with the tutor\<close>

lemma chat_missing:
  "providerOf settings = Custom \<Longrightarrow> missingCredentials settings \<Longrightarrow>
   chatWithTutor W history msg ctx settings = ([], Inl (Error ''Missing credentials''))"
  by (simp add: chatWithTutor_def)

lemma chat_native:
  "providerOf settings = Gemini \<Longrightarrow>
   chatWithTutor W history msg ctx settings
   = ([SendMessage (nativeChatRequest settings history msg ctx)],
      sendMessage W (nativeChatRequest settings history msg ctx))"
  by (simp add: chatWithTutor_def Let_def)

lemma chat_history:
  "providerOf settings = Custom \<Longrightarrow> \<not> missingCredentials settings \<Longrightarrow>
   historyMessages history = None \<Longrightarrow>
   chatWithTutor W history msg ctx settings = ([], Inl TypeError)"
  by (simp add: chatWithTutor_def)

lemma chat_custom:
  assumes "providerOf settings = Custom" "\<not> missingCredentials settings"
    "historyMessages history = Some hs"
  shows "fst (chatWithTutor W history msg ctx settings)
         = [Fetch (customChatRequest settings hs msg ctx)]"
    and "fetch W (customChatRequest settings hs msg ctx) = Inl e \<Longrightarrow>
         snd (chatWithTutor W history msg ctx settings) = Inr (Some chatFallback)"
    and "fetch W (customChatRequest settings hs msg ctx) = Inr response \<Longrightarrow>
         reply response = Inl e \<Longrightarrow>
         snd (chatWithTutor W history msg ctx settings) = Inr (Some chatFallback)"
    and "fetch W (customChatRequest settings hs msg ctx) = Inr response \<Longrightarrow>
         reply response = Inr c \<Longrightarrow>
         snd (chatWithTutor W history msg ctx settings)
         = Inr (Some (if missing c then ''Error: No response.'' else orEmpty c))"
    and "snd (chatWithTutor W history msg ctx settings) \<noteq> Inl e'"
  using assms by (auto simp: chatWithTutor_def Let_def split: sum.splits)

lemma chat_once: "length (fst (chatWithTutor W history msg ctx settings)) \<le> 1"
  by (simp add: chatWithTutor_def Let_def split: option.splits)

lemma ocr_custom:
  "providerOf settings = Custom \<Longrightarrow>
   extractTextFromImage W img mime settings = ([], Inr ocrPlaceholder)"
  by (simp add: extractTextFromImage_def)


subsection \<open>Missing credentials of the generic provider\<close>

lemma sample_missing:
  "providerOf (Some (customSettings None (Some ''key''))) = Custom"
  "missingCredentials (Some (customSettings None (Some ''key'')))"
  by (simp_all add: providerOf_def missingCredentials_def customSettings_def missing_def)

text \<open>
  C2, as the specification states it, fails: with the generic provider selected and no
  base URL, \<open>assessLevel\<close> on a word list does not fail, it returns \<open>Unknown\<close>, and the
  import clean-up returns the file name and the raw text.
\<close>
theorem missing_credentials_counterexample:
  "providerOf (Some (customSettings None (Some ''key''))) = Custom
   \<and> missingCredentials (Some (customSettings None (Some ''key'')))
   \<and> assessLevel (answering ''B1'') [''cat''] (Some (customSettings None (Some ''key'')))
       = ([], Inr ''Unknown'')
   \<and> processImportedText (answering ''B1'') ''raw text'' ''a.txt''
         (Some (customSettings None (Some ''key'')))
       = ([], Inr \<lparr>imported_title = JStr (units ''a.txt''), imported_content = JStr (units ''raw text'')\<rparr>)"
proof -
  let ?s = "Some (customSettings None (Some ''key''))"
  let ?W = "answering ''B1''"
  have "assessCall ?W [''cat''] ?s
        = ([], Inl (Error ''Missing Base URL or API Key for custom provider''))"
    by (rule calls_missing(7) [OF sample_missing])
  then have a: "assessLevel ?W [''cat''] ?s = ([], Inr ''Unknown'')"
    by (rule assessLevel_raise) simp
  have "importCall ?W ''raw text'' ''a.txt'' ?s
        = ([], Inl (Error ''Missing Base URL or API Key for custom provider''))"
    by (rule calls_missing(5) [OF sample_missing])
  then have "processImportedText ?W ''raw text'' ''a.txt'' ?s
       = ([], Inr \<lparr>imported_title = JStr (units ''a.txt''), imported_content = JStr (units ''raw text'')\<rparr>)"
    by (rule processImportedText_raise)
  with a sample_missing show ?thesis by simp
qed

text \<open>
  C2, amended. With the generic provider selected and the base URL or the API key
  missing, the gateway call fails with the missing-credentials error and no operation
  makes an outbound call. Quiz generation raises that error and chat raises its own
  missing-credentials error; search, define word, translate and exam generation raise
  their own failure; \<open>assessLevel\<close> returns \<open>Unknown\<close>, the import clean-up returns the
  file name and the raw text, and the image transcription returns its placeholder.
\<close>
theorem missing_credentials:
  "providerOf settings = Custom \<and> missingCredentials settings \<longrightarrow>
     callAI W p settings sc ts
       = ([], Inl (Error ''Missing Base URL or API Key for custom provider''))
   \<and> generateQuizForWord W now w settings
       = ([], Inl (Error ''Missing Base URL or API Key for custom provider''))
   \<and> chatWithTutor W history msg ctx settings = ([], Inl (Error ''Missing credentials''))
   \<and> searchArticles W clock topic settings = ([], Inl searchFailed)
   \<and> defineWord W w c settings = ([], Inl (Error ''Failed to define word.''))
   \<and> translateText W text settings = ([], Inl (Error ''Failed to translate text.''))
   \<and> generateExam W lvl known req settings = ([], Inl (Error ''Failed to generate exam.''))
   \<and> assessLevel W vocab settings = ([], Inr ''Unknown'')
   \<and> processImportedText W raw file settings
       = ([], Inr \<lparr>imported_title = JStr (units file), imported_content = JStr (units raw)\<rparr>)
   \<and> extractTextFromImage W img mime settings = ([], Inr ocrPlaceholder)"
proof (intro impI, elim conjE)
  assume c: "providerOf settings = Custom" and m: "missingCredentials settings"
  note calls = calls_missing [OF c m]
  have a: "assessLevel W vocab settings = ([], Inr ''Unknown'')"
  proof (cases "vocab = []")
    case True
    then show ?thesis by (simp add: assessLevel_def)
  next
    case False
    with calls(7) show ?thesis by (rule assessLevel_raise)
  qed
  show "callAI W p settings sc ts
       = ([], Inl (Error ''Missing Base URL or API Key for custom provider''))
   \<and> generateQuizForWord W now w settings
       = ([], Inl (Error ''Missing Base URL or API Key for custom provider''))
   \<and> chatWithTutor W history msg ctx settings = ([], Inl (Error ''Missing credentials''))
   \<and> searchArticles W clock topic settings = ([], Inl searchFailed)
   \<and> defineWord W w c settings = ([], Inl (Error ''Failed to define word.''))
   \<and> translateText W text settings = ([], Inl (Error ''Failed to translate text.''))
   \<and> generateExam W lvl known req settings = ([], Inl (Error ''Failed to generate exam.''))
   \<and> assessLevel W vocab settings = ([], Inr ''Unknown'')
   \<and> processImportedText W raw file settings
       = ([], Inr \<lparr>imported_title = JStr (units file), imported_content = JStr (units raw)\<rparr>)
   \<and> extractTextFromImage W img mime settings = ([], Inr ocrPlaceholder)"
    using callAI_missing [OF c m] generateQuizForWord_raise [OF calls(3)] chat_missing [OF c m]
      searchArticles_raise [OF calls(6)] defineWord_raise [OF calls(1)]
      translateText_raise [OF calls(2)] generateExam_raise [OF calls(4)] a
      processImportedText_raise [OF calls(5)] ocr_custom [OF c]
    by (intro conjI) blast+
qed

theorem missing_credentials_witness:
  "providerOf (Some (customSettings None (Some ''key''))) = Custom
   \<and> missingCredentials (Some (customSettings None (Some ''key'')))
   \<and> generateQuizForWord (answering ''B1'') 7 ''cat'' (Some (customSettings None (Some ''key'')))
       = ([], Inl (Error ''Missing Base URL or API Key for custom provider''))
   \<and> defineWord (answering ''B1'') ''cat'' None (Some (customSettings None (Some ''key'')))
       = ([], Inl (Error ''Failed to define word.''))
   \<and> chatWithTutor (answering ''B1'') [] ''hello'' ''level B1''
         (Some (customSettings None (Some ''key'')))
       = ([], Inl (Error ''Missing credentials''))"
  using missing_credentials [of "Some (customSettings None (Some ''key''))" "answering ''B1''"
      _ _ _ 7 "''cat''" "[]" "''hello''" "''level B1''" _ _ None]
    sample_missing
  by simp


subsection \<open>Responses that are not JSON\<close>

lemma not_json: "JSON_parse (cleanJsonText ''not json'') = None"
  by code_simp

lemma empty_response:
  "cleanJsonText [] = ''{}''"
  "JSON_parse (cleanJsonText []) = Some (JObj [])"
  by code_simp+

lemma native: "\<not> (providerOf None = Custom \<and> missingCredentials None)"
  by (simp add: providerOf_def)

lemma pair_snd: "snd p = b \<Longrightarrow> p = (fst p, b)"
  by (cases p) simp

text \<open>
  C3, as the specification states it, fails: a response that is not JSON is not read as
  the empty object. \<open>JSON.parse\<close> throws, and define word fails on it, as quiz
  generation does.
\<close>
theorem unparsed_response_counterexample:
  "JSON_parse (cleanJsonText ''not json'') = None
   \<and> snd (defineWord (answering ''not json'') ''cat'' None None)
       = Inl (Error ''Failed to define word.'')
   \<and> snd (generateQuizForWord (answering ''not json'') 7 ''cat'' None) = Inl SyntaxError"
proof -
  let ?W = "answering ''not json''"
  have "defineCall ?W ''cat'' None None = (fst (defineCall ?W ''cat'' None None), Inr ''not json'')"
    by (rule pair_snd) (rule calls_answering(1) [OF native])
  then have d: "defineWord ?W ''cat'' None None
                = (fst (defineCall ?W ''cat'' None None), Inl (Error ''Failed to define word.''))"
    using not_json by (rule defineWord_unparsed)
  have "quizCall ?W ''cat'' None = (fst (quizCall ?W ''cat'' None), Inr ''not json'')"
    by (rule pair_snd) (rule calls_answering(3) [OF native])
  then have "generateQuizForWord ?W 7 ''cat'' None
             = (fst (quizCall ?W ''cat'' None), Inl SyntaxError)"
    using not_json by (rule generateQuizForWord_unparsed)
  with d not_json show ?thesis by simp
qed

text \<open>
  C3, amended. Only the empty response is replaced by the text of the empty object,
  whose properties all read as undefined. On a response that is not JSON after the
  fences are stripped, \<open>JSON.parse\<close> throws in every operation: define word and exam
  generation raise their own failure, quiz generation raises the parse error, the
  import clean-up returns the file name and the raw text, and the search returns the
  empty list.
\<close>
theorem response_extraction:
  "cleanJsonText [] = ''{}''
   \<and> JSON_parse (cleanJsonText []) = Some (JObj [])
   \<and> propOf (JObj []) k = None
   \<and> (defineCall W w c settings = (calls, Inr []) \<longrightarrow>
        defineWord W w c settings = (calls, Inr (JObj [])))
   \<and> (JSON_parse (cleanJsonText t) = None \<longrightarrow>
        (defineCall W w c settings = (calls, Inr t) \<longrightarrow>
           defineWord W w c settings = (calls, Inl (Error ''Failed to define word.'')))
      \<and> (examCall W lvl known req settings = (calls, Inr t) \<longrightarrow>
           generateExam W lvl known req settings = (calls, Inl (Error ''Failed to generate exam.'')))
      \<and> (quizCall W w settings = (calls, Inr t) \<longrightarrow>
           generateQuizForWord W now w settings = (calls, Inl SyntaxError))
      \<and> (importCall W raw file settings = (calls, Inr t) \<longrightarrow>
           processImportedText W raw file settings
             = (calls, Inr \<lparr>imported_title = JStr (units file), imported_content = JStr (units raw)\<rparr>))
      \<and> (searchCall W topic settings = (calls, Inr t) \<longrightarrow>
           searchArticles W clock topic settings = (calls, Inr [])))"
proof -
  have e: "defineWord W w c settings = (calls, Inr (JObj []))"
    if "defineCall W w c settings = (calls, Inr [])"
    using that empty_response(2) by (rule defineWord_parsed)
  have p: "propOf (JObj []) k = None"
    by (simp add: propOf_def units_def)
  have u: "(defineCall W w c settings = (calls, Inr t) \<longrightarrow>
           defineWord W w c settings = (calls, Inl (Error ''Failed to define word.'')))
      \<and> (examCall W lvl known req settings = (calls, Inr t) \<longrightarrow>
           generateExam W lvl known req settings = (calls, Inl (Error ''Failed to generate exam.'')))
      \<and> (quizCall W w settings = (calls, Inr t) \<longrightarrow>
           generateQuizForWord W now w settings = (calls, Inl SyntaxError))
      \<and> (importCall W raw file settings = (calls, Inr t) \<longrightarrow>
           processImportedText W raw file settings
             = (calls, Inr \<lparr>imported_title = JStr (units file), imported_content = JStr (units raw)\<rparr>))
      \<and> (searchCall W topic settings = (calls, Inr t) \<longrightarrow>
           searchArticles W clock topic settings = (calls, Inr []))"
    if n: "JSON_parse (cleanJsonText t) = None"
    using n
    by (intro conjI impI)
       (simp_all add: defineWord_def generateExam_def generateQuizForWord_def
          processImportedText_def searchArticles_def articlesOf_def)
  from empty_response p e u show ?thesis by blast
qed

theorem response_extraction_witness:
  "defineCall (answering []) ''cat'' None None = (fst (defineCall (answering []) ''cat'' None None), Inr [])
   \<and> defineWord (answering []) ''cat'' None None
       = (fst (defineCall (answering []) ''cat'' None None), Inr (JObj []))
   \<and> JSON_parse (cleanJsonText ''not json'') = None
   \<and> examCall (answering ''not json'') ''B1'' [''cat''] None None
       = (fst (examCall (answering ''not json'') ''B1'' [''cat''] None None), Inr ''not json'')
   \<and> generateExam (answering ''not json'') ''B1'' [''cat''] None None
       = (fst (examCall (answering ''not json'') ''B1'' [''cat''] None None),
          Inl (Error ''Failed to generate exam.''))"
proof -
  have 1: "defineCall (answering []) ''cat'' None None
           = (fst (defineCall (answering []) ''cat'' None None), Inr [])"
    by (rule pair_snd) (rule calls_answering(1) [OF native])
  have 2: "examCall (answering ''not json'') ''B1'' [''cat''] None None
       = (fst (examCall (answering ''not json'') ''B1'' [''cat''] None None), Inr ''not json'')"
    by (rule pair_snd) (rule calls_answering(4) [OF native])
  from 1 response_extraction [where W = "answering []" and w = "''cat''" and c = None
      and settings = None and calls = "fst (defineCall (answering []) ''cat'' None None)"]
  have 3: "defineWord (answering []) ''cat'' None None
       = (fst (defineCall (answering []) ''cat'' None None), Inr (JObj []))"
    by blast
  from 2 not_json response_extraction [where t = "''not json''" and W = "answering ''not json''"
      and lvl = "''B1''" and known = "[''cat'']" and req = None and settings = None
      and calls = "fst (examCall (answering ''not json'') ''B1'' [''cat''] None None)"]
  have 4: "generateExam (answering ''not json'') ''B1'' [''cat''] None None
       = (fst (examCall (answering ''not json'') ''B1'' [''cat''] None None),
          Inl (Error ''Failed to generate exam.''))"
    by blast
  from 1 2 3 4 not_json show ?thesis by blast
qed


subsection \<open>Propagation of failures\<close>

lemma sample_custom:
  "providerOf (Some (customSettings (Some ''https://api.example.com'') (Some ''key''))) = Custom"
  "\<not> missingCredentials (Some (customSettings (Some ''https://api.example.com'') (Some ''key'')))"
  by (simp_all add: providerOf_def missingCredentials_def customSettings_def missing_def)

lemma sample_chat_request:
  "customChatRequest (Some (customSettings (Some ''https://api.example.com'') (Some ''key'')))
     [] ''hello'' ''level B1''
   = \<lparr>endpoint = ''https://api.example.com/chat/completions'',
      authorization = ''Bearer key'',
      body_model = ''deepseek-chat'',
      body_messages =
        [\<lparr>role = ''system'',
          content = PlainText ''You are a helpful English Tutor. User Context: level B1''\<rparr>,
         \<lparr>role = ''user'', content = PlainText ''hello''\<rparr>],
      body_temperature = 1\<rparr>"
  by (simp add: customChatRequest_def customSettings_def endpointOf_def endsWith_def orEmpty_def
        personaOf_def tempOf_def)

text \<open>
  C9, as the specification states it, fails for chat on the generic provider: when the
  request is rejected, \<open>chatWithTutor\<close> returns a fallback message and raises nothing.
\<close>
theorem chat_fallback_counterexample:
  "fetch (failing TypeError)
     \<lparr>endpoint = ''https://api.example.com/chat/completions'',
      authorization = ''Bearer key'',
      body_model = ''deepseek-chat'',
      body_messages =
        [\<lparr>role = ''system'',
          content = PlainText ''You are a helpful English Tutor. User Context: level B1''\<rparr>,
         \<lparr>role = ''user'', content = PlainText ''hello''\<rparr>],
      body_temperature = 1\<rparr> = Inl TypeError
   \<and> chatWithTutor (failing TypeError) [] ''hello'' ''level B1''
       (Some (customSettings (Some ''https://api.example.com'') (Some ''key'')))
     = ([Fetch \<lparr>endpoint = ''https://api.example.com/chat/completions'',
                authorization = ''Bearer key'',
                body_model = ''deepseek-chat'',
                body_messages =
                  [\<lparr>role = ''system'',
                    content = PlainText ''You are a helpful English Tutor. User Context: level B1''\<rparr>,
                   \<lparr>role = ''user'', content = PlainText ''hello''\<rparr>],
                body_temperature = 1\<rparr>],
        Inr (Some ''I'm having trouble connecting to your custom AI provider.''))"
proof -
  let ?cs = "Some (customSettings (Some ''https://api.example.com'') (Some ''key''))"
  let ?W = "failing TypeError"
  have h: "historyMessages [] = Some []" by simp
  have f: "fetch ?W (customChatRequest ?cs [] ''hello'' ''level B1'') = Inl TypeError"
    by (simp add: failing_def)
  have "chatWithTutor ?W [] ''hello'' ''level B1'' ?cs
        = ([Fetch (customChatRequest ?cs [] ''hello'' ''level B1'')], Inr (Some chatFallback))"
    using chat_custom(1) [OF sample_custom h, of ?W "''hello''" "''level B1''"]
      chat_custom(2) [OF sample_custom h f]
    by (simp add: prod_eq_iff)
  then show ?thesis
    by (simp add: sample_chat_request chatFallback_def failing_def)
qed

text \<open>
  C9, amended. Define word, translate and exam generation raise their own failure when
  the provider call fails, and define word and exam generation also when the response
  does not parse; quiz generation raises the error of the call, or the parse error.
  Chat on the native provider raises the provider's error. Chat on the generic
  provider, with credentials and a well-formed history, never raises: when the request
  is rejected, or the reply cannot be read, it returns the fallback message, and
  otherwise the content of the reply, or a notice when there is none. None of the five
  operations makes more than one outbound call, on either provider.
\<close>
theorem failure_propagation:
  "(defineCall W w c settings = (calls, Inl e) \<longrightarrow>
      defineWord W w c settings = (calls, Inl (Error ''Failed to define word.'')))
   \<and> (defineCall W w c settings = (calls, Inr t) \<and> JSON_parse (cleanJsonText t) = None \<longrightarrow>
      defineWord W w c settings = (calls, Inl (Error ''Failed to define word.'')))
   \<and> (translateCall W text settings = (calls, Inl e) \<longrightarrow>
      translateText W text settings = (calls, Inl (Error ''Failed to translate text.'')))
   \<and> (quizCall W w settings = (calls, Inl e) \<longrightarrow>
      generateQuizForWord W now w settings = (calls, Inl e))
   \<and> (quizCall W w settings = (calls, Inr t) \<and> JSON_parse (cleanJsonText t) = None \<longrightarrow>
      generateQuizForWord W now w settings = (calls, Inl SyntaxError))
   \<and> (examCall W lvl known req settings = (calls, Inl e) \<longrightarrow>
      generateExam W lvl known req settings = (calls, Inl (Error ''Failed to generate exam.'')))
   \<and> (examCall W lvl known req settings = (calls, Inr t) \<and> JSON_parse (cleanJsonText t) = None \<longrightarrow>
      generateExam W lvl known req settings = (calls, Inl (Error ''Failed to generate exam.'')))
   \<and> (providerOf settings = Gemini
        \<and> sendMessage W (nativeChatRequest settings history msg ctx) = Inl e \<longrightarrow>
      snd (chatWithTutor W history msg ctx settings) = Inl e)
   \<and> chatFallback = ''I'm having trouble connecting to your custom AI provider.''
   \<and> (providerOf settings = Custom \<and> \<not> missingCredentials settings
        \<and> historyMessages history = Some hs \<longrightarrow>
      (fetch W (customChatRequest settings hs msg ctx) = Inl e \<longrightarrow>
         snd (chatWithTutor W history msg ctx settings) = Inr (Some chatFallback))
      \<and> (fetch W (customChatRequest settings hs msg ctx) = Inr response
          \<and> reply response = Inl e \<longrightarrow>
         snd (chatWithTutor W history msg ctx settings) = Inr (Some chatFallback))
      \<and> (fetch W (customChatRequest settings hs msg ctx) = Inr response
          \<and> reply response = Inr r \<longrightarrow>
         snd (chatWithTutor W history msg ctx settings)
           = Inr (Some (if missing r then ''Error: No response.'' else orEmpty r)))
      \<and> snd (chatWithTutor W history msg ctx settings) \<noteq> Inl e)
   \<and> length (fst (defineWord W w c settings)) \<le> 1
   \<and> length (fst (translateText W text settings)) \<le> 1
   \<and> length (fst (generateQuizForWord W now w settings)) \<le> 1
   \<and> length (fst (generateExam W lvl known req settings)) \<le> 1
   \<and> length (fst (chatWithTutor W history msg ctx settings)) \<le> 1"
proof -
  have custom:
    "(fetch W (customChatRequest settings hs msg ctx) = Inl e \<longrightarrow>
         snd (chatWithTutor W history msg ctx settings) = Inr (Some chatFallback))
      \<and> (fetch W (customChatRequest settings hs msg ctx) = Inr response
          \<and> reply response = Inl e \<longrightarrow>
         snd (chatWithTutor W history msg ctx settings) = Inr (Some chatFallback))
      \<and> (fetch W (customChatRequest settings hs msg ctx) = Inr response
          \<and> reply response = Inr r \<longrightarrow>
         snd (chatWithTutor W history msg ctx settings)
           = Inr (Some (if missing r then ''Error: No response.'' else orEmpty r)))
      \<and> snd (chatWithTutor W history msg ctx settings) \<noteq> Inl e"
    if h: "providerOf settings = Custom \<and> \<not> missingCredentials settings
        \<and> historyMessages history = Some hs"
  proof -
    from h have 1: "providerOf settings = Custom" and 2: "\<not> missingCredentials settings"
      and 3: "historyMessages history = Some hs"
      by simp_all
    show ?thesis
      using chat_custom(2) [OF 1 2 3, of W msg ctx e]
        chat_custom(3) [OF 1 2 3, of W msg ctx response e]
        chat_custom(4) [OF 1 2 3, of W msg ctx response r]
        chat_custom(5) [OF 1 2 3, of W msg ctx e]
      by blast
  qed
  have native: "snd (chatWithTutor W history msg ctx settings) = Inl e"
    if "providerOf settings = Gemini
        \<and> sendMessage W (nativeChatRequest settings history msg ctx) = Inl e"
    using that by (simp add: chat_native)
  show ?thesis
  proof (intro conjI)
    show "providerOf settings = Gemini
        \<and> sendMessage W (nativeChatRequest settings history msg ctx) = Inl e \<longrightarrow>
      snd (chatWithTutor W history msg ctx settings) = Inl e"
      using native by blast
    show "chatFallback = ''I'm having trouble connecting to your custom AI provider.''"
      by (simp add: chatFallback_def)
    show "providerOf settings = Custom \<and> \<not> missingCredentials settings
        \<and> historyMessages history = Some hs \<longrightarrow>
      (fetch W (customChatRequest settings hs msg ctx) = Inl e \<longrightarrow>
         snd (chatWithTutor W history msg ctx settings) = Inr (Some chatFallback))
      \<and> (fetch W (customChatRequest settings hs msg ctx) = Inr response
          \<and> reply response = Inl e \<longrightarrow>
         snd (chatWithTutor W history msg ctx settings) = Inr (Some chatFallback))
      \<and> (fetch W (customChatRequest settings hs msg ctx) = Inr response
          \<and> reply response = Inr r \<longrightarrow>
         snd (chatWithTutor W history msg ctx settings)
           = Inr (Some (if missing r then ''Error: No response.'' else orEmpty r)))
      \<and> snd (chatWithTutor W history msg ctx settings) \<noteq> Inl e"
      using custom by blast
  qed (simp_all only: operations_once chat_once,
       simp_all add: defineWord_def translateText_def generateQuizForWord_def generateExam_def)
qed

theorem failure_propagation_witness:
  "defineCall (failing (Error ''offline'')) ''cat'' None None
     = (fst (defineCall (failing (Error ''offline'')) ''cat'' None None), Inl (Error ''offline''))
   \<and> defineWord (failing (Error ''offline'')) ''cat'' None None
     = (fst (defineCall (failing (Error ''offline'')) ''cat'' None None),
        Inl (Error ''Failed to define word.''))
   \<and> providerOf None = Gemini
   \<and> sendMessage (failing (Error ''offline'')) (nativeChatRequest None [] ''hello'' ''level B1'')
     = Inl (Error ''offline'')
   \<and> snd (chatWithTutor (failing (Error ''offline'')) [] ''hello'' ''level B1'' None)
     = Inl (Error ''offline'')
   \<and> providerOf (Some (customSettings (Some ''https://api.example.com'') (Some ''key''))) = Custom
   \<and> \<not> missingCredentials (Some (customSettings (Some ''https://api.example.com'') (Some ''key'')))
   \<and> historyMessages [] = Some []
   \<and> fetch (failing (Error ''offline''))
        (customChatRequest (Some (customSettings (Some ''https://api.example.com'') (Some ''key'')))
           [] ''hello'' ''level B1'')
     = Inl (Error ''offline'')
   \<and> snd (chatWithTutor (failing (Error ''offline'')) [] ''hello'' ''level B1''
            (Some (customSettings (Some ''https://api.example.com'') (Some ''key''))))
     = Inr (Some ''I'm having trouble connecting to your custom AI provider.'')
   \<and> fetch garbled
        (customChatRequest (Some (customSettings (Some ''https://api.example.com'') (Some ''key'')))
           [] ''hello'' ''level B1'')
     = Inr \<lparr>ok = True, statusText = ''OK'', reply = Inl SyntaxError\<rparr>
   \<and> snd (chatWithTutor garbled [] ''hello'' ''level B1''
            (Some (customSettings (Some ''https://api.example.com'') (Some ''key''))))
     = Inr (Some ''I'm having trouble connecting to your custom AI provider.'')
   \<and> fetch (answering ''Hi!'')
        (customChatRequest (Some (customSettings (Some ''https://api.example.com'') (Some ''key'')))
           [] ''hello'' ''level B1'')
     = Inr \<lparr>ok = True, statusText = ''OK'', reply = Inr (Some ''Hi!'')\<rparr>
   \<and> snd (chatWithTutor (answering ''Hi!'') [] ''hello'' ''level B1''
            (Some (customSettings (Some ''https://api.example.com'') (Some ''key''))))
     = Inr (Some ''Hi!'')"
proof -
  let ?W = "failing (Error ''offline'')"
  let ?e = "Error ''offline''"
  let ?cs = "Some (customSettings (Some ''https://api.example.com'') (Some ''key''))"
  let ?req = "customChatRequest ?cs [] ''hello'' ''level B1''"
  let ?bad = "\<lparr>ok = True, statusText = ''OK'', reply = Inl SyntaxError\<rparr>"
  let ?good = "\<lparr>ok = True, statusText = ''OK'', reply = Inr (Some ''Hi!'')\<rparr>"
  have d: "defineCall ?W ''cat'' None None = (fst (defineCall ?W ''cat'' None None), Inl ?e)"
    by (rule pair_snd) (rule calls_failing(1) [OF native])
  have g: "providerOf None = Gemini" by (simp add: providerOf_def)
  have s: "sendMessage ?W (nativeChatRequest None [] ''hello'' ''level B1'') = Inl ?e"
    and f: "fetch ?W ?req = Inl ?e"
    by (simp_all add: failing_def)
  have fb: "fetch garbled ?req = Inr ?bad"
    by (simp add: garbled_def)
  have fg: "fetch (answering ''Hi!'') ?req = Inr ?good"
    by (simp add: answering_def)
  have rb: "reply ?bad = Inl SyntaxError" and rg: "reply ?good = Inr (Some ''Hi!'')"
    by simp_all
  have h: "historyMessages [] = Some []" by simp
  have 1: "defineWord ?W ''cat'' None None
     = (fst (defineCall ?W ''cat'' None None), Inl (Error ''Failed to define word.''))"
    using d failure_propagation [where W = ?W and w = "''cat''" and c = None and settings = None
        and calls = "fst (defineCall ?W ''cat'' None None)" and e = ?e]
    by blast
  have 2: "snd (chatWithTutor ?W [] ''hello'' ''level B1'' None) = Inl ?e"
    using g s failure_propagation [where W = ?W and settings = None and e = ?e
        and history = "[]" and msg = "''hello''" and ctx = "''level B1''"]
    by blast
  have 3: "snd (chatWithTutor ?W [] ''hello'' ''level B1'' ?cs) = Inr (Some chatFallback)"
    using sample_custom h f failure_propagation [where W = ?W and settings = ?cs and e = ?e
        and history = "[]" and hs = "[]" and msg = "''hello''" and ctx = "''level B1''"]
    by blast
  have 4: "snd (chatWithTutor garbled [] ''hello'' ''level B1'' ?cs) = Inr (Some chatFallback)"
    using sample_custom h fb rb
      failure_propagation [where W = garbled and settings = ?cs and e = SyntaxError
        and history = "[]" and hs = "[]" and msg = "''hello''" and ctx = "''level B1''"
        and response = ?bad]
    by blast
  have "snd (chatWithTutor (answering ''Hi!'') [] ''hello'' ''level B1'' ?cs)
        = Inr (Some (if missing (Some ''Hi!'') then ''Error: No response.''
                     else orEmpty (Some ''Hi!'')))"
    using sample_custom h fg rg
      failure_propagation [where W = "answering ''Hi!''" and settings = ?cs
        and history = "[]" and hs = "[]" and msg = "''hello''" and ctx = "''level B1''"
        and response = ?good and r = "Some ''Hi!''"]
    by blast
  then have 5: "snd (chatWithTutor (answering ''Hi!'') [] ''hello'' ''level B1'' ?cs)
        = Inr (Some ''Hi!'')"
    by (simp add: missing_def orEmpty_def)
  from d g s f fb fg h 1 2 3 4 5 sample_custom show ?thesis
    by (simp only: chatFallback_def) blast
qed

subsection \<open>Quiz questions\<close>






subsection \<open>Exam results\<close>

lemma upt_Suc_shift: "[0..<Suc n] = 0 # map Suc [0..<n]"
  by (simp add: upt_conv_Cons map_Suc_upt del: upt_Suc)

lemma grade_general:
  "grade qs idx answers (sc, ms) =
     (sc + length (filter (\<lambda>i. elemAt answers (idx + i) = Some (correctOptionIndex (qs ! i)))
                     [0..<length qs]),
      ms @ map (\<lambda>i. mistakeOf (qs ! i))
             (filter (\<lambda>i. elemAt answers (idx + i) \<noteq> Some (correctOptionIndex (qs ! i)))
                [0..<length qs]))"
proof (induction qs arbitrary: idx sc ms)
  case Nil
  then show ?case by simp
next
  case (Cons q qs)
  have l: "length (q # qs) = Suc (length qs)" by simp
  show ?case
    by (simp only: l upt_Suc_shift grade.simps Cons.IH)
       (simp add: filter_map comp_def mistakeOf_def)
qed

lemma isCorrect_fun:
  "isCorrect questions answers
   = (\<lambda>i. elemAt answers i = Some (correctOptionIndex (questions ! i)))"
  by (rule ext) (simp add: isCorrect_def)

lemma calculateResult_fields:
  "totalQuestions (calculateResult questions answers t1 t2) = length questions"
  "mistakes (calculateResult questions answers t1 t2)
     = map (\<lambda>i. mistakeOf (questions ! i))
         (filter (\<lambda>i. \<not> isCorrect questions answers i) [0..<length questions])"
  "score (calculateResult questions answers t1 t2)
     = map_option (\<lambda>r. fmul r 100)
         (fdiv (of_nat (correctCount questions answers)) (of_nat (length questions)))"
  by (simp_all add: calculateResult_def grade_general [of questions 0 answers 0 "[]"]
        isCorrect_fun correctCount_def)

lemma count_split:
  "length (filter P xs) + length (filter (\<lambda>x. \<not> P x) xs) = length xs"
  by (induction xs) simp_all

lemma fl_values: "fl 0 = 0" "fl 1 = 1" "fl 100 = 100"
  by code_simp+


subsection \<open>The rounding error of doubles\<close>

lemma round_even_error: "\<bar>of_int (round_even y) - y\<bar> \<le> 1 / 2"
proof -
  let ?f = "\<lfloor>y\<rfloor>"
  let ?d = "y - of_int ?f"
  have d: "0 \<le> ?d" "?d < 1"
    by linarith+
  consider "?d < 1 / 2" | "1 / 2 < ?d" | "?d = 1 / 2 \<and> even ?f" | "?d = 1 / 2 \<and> odd ?f"
    by linarith
  then show ?thesis
  proof cases
    case 1
    then have "round_even y = ?f" by (simp add: round_even_def Let_def)
    with 1 d show ?thesis by simp
  next
    case 2
    then have "round_even y = ?f + 1" by (simp add: round_even_def Let_def)
    with 2 d show ?thesis by simp
  next
    case 3
    then have "round_even y = ?f" by (simp add: round_even_def Let_def)
    with 3 show ?thesis by simp
  next
    case 4
    then have "round_even y = ?f + 1" by (simp add: round_even_def Let_def)
    with 4 show ?thesis by simp
  qed
qed

lemma ilog2_lower:
  assumes "x \<noteq> 0"
  shows "2 powi (ilog2 x) \<le> \<bar>x\<bar>"
proof -
  obtain a b where q: "quotient_of \<bar>x\<bar> = (a, b)"
    by (cases "quotient_of \<bar>x\<bar>")
  then have b: "0 < b" and x: "\<bar>x\<bar> = of_int a / of_int b"
    by (simp_all add: quotient_of_denom_pos quotient_of_div)
  from assms have "0 < \<bar>x\<bar>" by simp
  with x b have a: "0 < a"
    by (simp add: zero_less_divide_iff)
  let ?k = "bitlen a - bitlen b"
  show ?thesis
  proof (cases "2 powi ?k \<le> \<bar>x\<bar>")
    case True
    with q show ?thesis by (simp add: ilog2_def)
  next
    case False
    with q have i: "ilog2 x = ?k - 1" by (simp add: ilog2_def)
    from a bitlen_bounds [of a] have la: "(2::int) ^ nat (bitlen a - 1) \<le> a"
      by simp
    from b bitlen_bounds [of b] have lb: "b < (2::int) ^ nat (bitlen b)"
      by simp
    have pa: "0 < bitlen a" and pb: "0 < bitlen b"
      using a b bitlen_nonneg [of a] bitlen_nonneg [of b]
        bitlen_eq_zero_iff [of a] bitlen_eq_zero_iff [of b]
      by linarith+
    have e: "?k - 1 = (bitlen a - 1) - bitlen b"
      by simp
    have "(2::rat) powi (?k - 1) = 2 powi (bitlen a - 1) / 2 powi (bitlen b)"
      unfolding e by (rule power_int_diff) simp
    also have "\<dots> = 2 ^ nat (bitlen a - 1) / 2 ^ nat (bitlen b)"
      using pa pb by (simp add: power_int_def)
    also have "\<dots> \<le> of_int a / of_int b"
    proof (rule frac_le)
      show "(0::rat) \<le> of_int a" using a by simp
      have "of_int ((2::int) ^ nat (bitlen a - 1)) \<le> (of_int a :: rat)"
        using la by (simp only: of_int_le_iff)
      then show "(2::rat) ^ nat (bitlen a - 1) \<le> of_int a" by simp
      show "(0::rat) < of_int b" using b by simp
      have "(of_int b :: rat) \<le> of_int ((2::int) ^ nat (bitlen b))"
        using lb by (simp only: of_int_le_iff)
      then show "(of_int b :: rat) \<le> 2 ^ nat (bitlen b)" by simp
    qed
    finally show ?thesis using i x by simp
  qed
qed

lemma fl_error: "\<bar>fl x - x\<bar> \<le> \<bar>x\<bar> / 2 ^ 53"
proof (cases "x = 0")
  case True
  then show ?thesis by (simp add: fl_def)
next
  case False
  let ?e = "ilog2 x - 52"
  let ?p = "(2::rat) powi ?e"
  have p: "0 < ?p" by simp
  have f: "fl x = of_int (round_even (x / ?p)) * ?p"
    using False by (simp add: fl_def Let_def)
  have "fl x - x = (of_int (round_even (x / ?p)) - x / ?p) * ?p"
    using p by (simp add: f algebra_simps)
  then have "\<bar>fl x - x\<bar> = \<bar>of_int (round_even (x / ?p)) - x / ?p\<bar> * ?p"
    using p by (simp add: abs_mult)
  also have "\<dots> \<le> (1 / 2) * ?p"
    using round_even_error [of "x / ?p"] p by (intro mult_right_mono) simp_all
  also have "(1 / 2) * ?p = 2 powi (ilog2 x) / 2 ^ 53"
  proof -
    have "?p = 2 powi (ilog2 x) / 2 powi 52"
      by (simp add: power_int_diff)
    then show ?thesis by simp
  qed
  also have "\<dots> \<le> \<bar>x\<bar> / 2 ^ 53"
    using ilog2_lower [OF False] by (intro divide_right_mono) simp_all
  finally show ?thesis .
qed

lemma score_error:
  assumes "0 \<le> q"
  shows "\<bar>fmul (fl q) 100 - 100 * q\<bar> \<le> 100 * q / 2 ^ 51"
proof -
  let ?r = "fl q"
  let ?s = "fl (?r * 100)"
  have a: "\<bar>?r - q\<bar> \<le> q / 2 ^ 53"
    using fl_error [of q] assms by simp
  have b: "\<bar>?s - ?r * 100\<bar> \<le> 100 * \<bar>?r\<bar> / 2 ^ 53"
    using fl_error [of "?r * 100"] by (simp add: abs_mult)
  from a have a1: "?r \<le> q + q / 2 ^ 53" and a2: "q - q / 2 ^ 53 \<le> ?r"
    by (simp_all only: abs_diff_le_iff)
  from a2 assms have r: "0 \<le> ?r"
    by simp
  with b have "\<bar>?s - ?r * 100\<bar> \<le> 100 * ?r / 2 ^ 53"
    by simp
  then have b1: "?s \<le> ?r * 100 + 100 * ?r / 2 ^ 53"
    and b2: "?r * 100 - 100 * ?r / 2 ^ 53 \<le> ?s"
    by (simp_all only: abs_diff_le_iff)
  have "?s - 100 * q \<le> 100 * q / 2 ^ 51"
    using a1 b1 assms by simp
  moreover have "- (?s - 100 * q) \<le> 100 * q / 2 ^ 51"
    using a2 b2 assms r by simp
  ultimately have "\<bar>?s - 100 * q\<bar> \<le> 100 * q / 2 ^ 51"
    by (rule abs_leI)
  then show ?thesis by (simp add: fmul_def)
qed

lemma third: "fmul (fl (1 / 3)) 100 = 2345624805922133 / 70368744177664"
  "fdiv (fmul 100 1) 3 = Some (4691249611844267 / 140737488355328)"
  by code_simp+

lemma sample_count:
  "correctCount [sampleQuestion ''q1'', sampleQuestion ''q2'', sampleQuestion ''q3''] [0, 1, 1] = 1"
  by (simp add: correctCount_def isCorrect_fun elemAt_def sampleQuestion_def upt_Suc_shift
           del: upt_Suc)

text \<open>
  C5, as the specification states it, fails in the arithmetic of the score. The code
  computes \<open>(score / questions.length) * 100\<close> on doubles; for one correct answer out
  of three the result is the double 33.33333333333333, which is neither the number
  100/3 nor the double 33.333333333333336 that \<open>100 * 1 / 3\<close> evaluates to.
\<close>
theorem exam_score_counterexample:
  "correctCount [sampleQuestion ''q1'', sampleQuestion ''q2'', sampleQuestion ''q3''] [0, 1, 1] = 1
   \<and> score (calculateResult [sampleQuestion ''q1'', sampleQuestion ''q2'', sampleQuestion ''q3'']
              [0, 1, 1] 7 8)
       = Some (2345624805922133 / 70368744177664)
   \<and> (2345624805922133 / 70368744177664 :: rat) \<noteq> 100 * 1 / 3
   \<and> fdiv (fmul 100 1) 3 = Some (4691249611844267 / 140737488355328)
   \<and> (2345624805922133 / 70368744177664 :: rat) \<noteq> 4691249611844267 / 140737488355328"
proof -
  let ?qs = "[sampleQuestion ''q1'', sampleQuestion ''q2'', sampleQuestion ''q3'']"
  have "score (calculateResult ?qs [0, 1, 1] 7 8)
        = map_option (\<lambda>r. fmul r 100) (fdiv (of_nat (correctCount ?qs [0, 1, 1])) (of_nat (length ?qs)))"
    by (rule calculateResult_fields(3))
  also have "\<dots> = Some (fmul (fl (1 / 3)) 100)"
    by (simp add: sample_count fdiv_def)
  finally have "score (calculateResult ?qs [0, 1, 1] 7 8)
                = Some (2345624805922133 / 70368744177664)"
    by (simp only: third(1))
  with sample_count third(2) show ?thesis by simp
qed

text \<open>
  C5, amended. For an exam of \<open>N \<ge> 1\<close> questions with \<open>k\<close> correct answers, the result has
  \<open>totalQuestions = N\<close>, \<open>N - k\<close> mistakes, one per incorrectly answered question in the
  order of the questions, each with the question's text and its option at the correct
  index, and the score is \<open>(k / N) * 100\<close> as doubles compute it: the division rounded,
  then the product rounded. The score differs from \<open>100 * k / N\<close> by at most that number
  divided by \<open>2^51\<close>; it is exactly 100 when all answers are correct and exactly 0 when
  none is.
\<close>
theorem calculateResult_exam:
  "questions \<noteq> [] \<longrightarrow>
     score (calculateResult questions answers t1 t2)
       = Some (fmul (fl (of_nat (correctCount questions answers) / of_nat (length questions))) 100)
     \<and> length (mistakes (calculateResult questions answers t1 t2))
         = length questions - correctCount questions answers
     \<and> correctCount questions answers \<le> length questions
     \<and> totalQuestions (calculateResult questions answers t1 t2) = length questions
     \<and> mistakes (calculateResult questions answers t1 t2)
         = map (\<lambda>i. mistakeOf (questions ! i))
             (filter (\<lambda>i. \<not> isCorrect questions answers i) [0..<length questions])
     \<and> \<bar>fmul (fl (of_nat (correctCount questions answers) / of_nat (length questions))) 100
          - 100 * of_nat (correctCount questions answers) / of_nat (length questions)\<bar>
         \<le> 100 * of_nat (correctCount questions answers) / of_nat (length questions) / 2 ^ 51
     \<and> (correctCount questions answers = length questions \<longrightarrow>
          score (calculateResult questions answers t1 t2) = Some 100)
     \<and> (correctCount questions answers = 0 \<longrightarrow>
          score (calculateResult questions answers t1 t2) = Some 0)"
proof
  assume ne: "questions \<noteq> []"
  let ?r = "calculateResult questions answers t1 t2"
  let ?k = "correctCount questions answers"
  let ?N = "length questions"
  have s: "score ?r = Some (fmul (fl (of_nat ?k / of_nat ?N)) 100)"
    using ne by (simp add: calculateResult_fields(3) fdiv_def)
  have split: "?k + length (mistakes ?r) = ?N"
    using count_split [of "isCorrect questions answers" "[0..<?N]"]
    by (simp add: calculateResult_fields(2) correctCount_def)
  have all: "score ?r = Some 100" if "?k = ?N"
    using ne that by (simp add: s fmul_def fl_values)
  have none: "score ?r = Some 0" if "?k = 0"
    using that by (simp add: s fmul_def fl_values)
  have len: "length (mistakes ?r) = ?N - ?k" and le: "?k \<le> ?N"
    using split by linarith+
  have tot: "totalQuestions ?r = ?N"
    by (rule calculateResult_fields(1))
  have mis: "mistakes ?r = map (\<lambda>i. mistakeOf (questions ! i))
             (filter (\<lambda>i. \<not> isCorrect questions answers i) [0..<?N])"
    by (rule calculateResult_fields(2))
  have err: "\<bar>fmul (fl (of_nat ?k / of_nat ?N)) 100 - 100 * of_nat ?k / of_nat ?N\<bar>
         \<le> 100 * of_nat ?k / of_nat ?N / 2 ^ 51"
    using score_error [of "of_nat ?k / of_nat ?N"] by simp
  from s len le tot mis err all none
  show "score ?r = Some (fmul (fl (of_nat ?k / of_nat ?N)) 100)
     \<and> length (mistakes ?r) = ?N - ?k
     \<and> ?k \<le> ?N
     \<and> totalQuestions ?r = ?N
     \<and> mistakes ?r
         = map (\<lambda>i. mistakeOf (questions ! i))
             (filter (\<lambda>i. \<not> isCorrect questions answers i) [0..<?N])
     \<and> \<bar>fmul (fl (of_nat ?k / of_nat ?N)) 100 - 100 * of_nat ?k / of_nat ?N\<bar>
         \<le> 100 * of_nat ?k / of_nat ?N / 2 ^ 51
     \<and> (?k = ?N \<longrightarrow> score ?r = Some 100)
     \<and> (?k = 0 \<longrightarrow> score ?r = Some 0)"
    by blast
qed


lemma sample_counts:
  "correctCount [sampleQuestion ''q1'', sampleQuestion ''q2'', sampleQuestion ''q3''] [0, 0, 0] = 3"
  "correctCount [sampleQuestion ''q1'', sampleQuestion ''q2'', sampleQuestion ''q3''] [1, 1, 1] = 0"
  by (simp_all add: correctCount_def isCorrect_fun elemAt_def sampleQuestion_def upt_Suc_shift
           del: upt_Suc)

theorem calculateResult_exam_witness:
  "[sampleQuestion ''q1'', sampleQuestion ''q2'', sampleQuestion ''q3''] \<noteq> []
   \<and> score (calculateResult [sampleQuestion ''q1'', sampleQuestion ''q2'', sampleQuestion ''q3'']
              [0, 1, 1] 7 8)
       = Some (2345624805922133 / 70368744177664)
   \<and> length (mistakes (calculateResult
                [sampleQuestion ''q1'', sampleQuestion ''q2'', sampleQuestion ''q3''] [0, 1, 1] 7 8))
       = 2
   \<and> totalQuestions (calculateResult
                [sampleQuestion ''q1'', sampleQuestion ''q2'', sampleQuestion ''q3''] [0, 1, 1] 7 8)
       = 3
   \<and> correctCount [sampleQuestion ''q1'', sampleQuestion ''q2'', sampleQuestion ''q3''] [0, 0, 0]
       = length [sampleQuestion ''q1'', sampleQuestion ''q2'', sampleQuestion ''q3'']
   \<and> score (calculateResult [sampleQuestion ''q1'', sampleQuestion ''q2'', sampleQuestion ''q3'']
              [0, 0, 0] 7 8)
       = Some 100
   \<and> correctCount [sampleQuestion ''q1'', sampleQuestion ''q2'', sampleQuestion ''q3''] [1, 1, 1] = 0
   \<and> score (calculateResult [sampleQuestion ''q1'', sampleQuestion ''q2'', sampleQuestion ''q3'']
              [1, 1, 1] 7 8)
       = Some 0"
proof -
  let ?qs = "[sampleQuestion ''q1'', sampleQuestion ''q2'', sampleQuestion ''q3'']"
  have ne: "?qs \<noteq> []" by simp
  have 1: "score (calculateResult ?qs [0, 1, 1] 7 8) = Some (2345624805922133 / 70368744177664)
     \<and> length (mistakes (calculateResult ?qs [0, 1, 1] 7 8)) = 2
     \<and> totalQuestions (calculateResult ?qs [0, 1, 1] 7 8) = 3"
  proof -
    have "score (calculateResult ?qs [0, 1, 1] 7 8)
            = Some (fmul (fl (of_nat (correctCount ?qs [0, 1, 1]) / of_nat (length ?qs))) 100)
          \<and> length (mistakes (calculateResult ?qs [0, 1, 1] 7 8))
              = length ?qs - correctCount ?qs [0, 1, 1]
          \<and> totalQuestions (calculateResult ?qs [0, 1, 1] 7 8) = length ?qs"
      using ne calculateResult_exam [of ?qs "[0, 1, 1]" 7 8] by blast
    then show ?thesis
      by (simp add: sample_count third(1))
  qed
  have "correctCount ?qs [0, 0, 0] = length ?qs"
    by (simp add: sample_counts(1))
  with ne calculateResult_exam [of ?qs "[0, 0, 0]" 7 8]
  have 2: "score (calculateResult ?qs [0, 0, 0] 7 8) = Some 100"
    by blast
  from ne sample_counts(2) calculateResult_exam [of ?qs "[1, 1, 1]" 7 8]
  have 3: "score (calculateResult ?qs [1, 1, 1] 7 8) = Some 0"
    by blast
  from ne 1 2 3 sample_counts show ?thesis by simp
qed


subsection \<open>Numbers and escapes in responses\<close>

text \<open>
  The numbers of a response are doubles with the exponent range of binary64: a value
  below half the least positive double reads as zero, and a value of \<open>2^1024\<close> or more
  as an infinity.
\<close>

lemma round_even_small: "\<bar>y\<bar> < 1 / 2 \<Longrightarrow> round_even y = 0"
proof -
  assume a: "\<bar>y\<bar> < 1 / 2"
  show ?thesis
  proof (cases "0 \<le> y")
    case True
    with a have "\<lfloor>y\<rfloor> = 0" by (simp add: floor_eq_iff)
    with a True show ?thesis by (simp add: round_even_def Let_def)
  next
    case False
    with a have f: "\<lfloor>y\<rfloor> = - 1" by (simp add: floor_eq_iff)
    from a False have "1 / 2 < y - of_int (- 1 :: int)" by simp
    with f show ?thesis by (simp add: round_even_def Let_def)
  qed
qed

lemma ilog2_upper:
  assumes "x \<noteq> 0"
  shows "\<bar>x\<bar> < 2 powi (ilog2 x + 1)"
proof -
  obtain a b where q: "quotient_of \<bar>x\<bar> = (a, b)"
    by (cases "quotient_of \<bar>x\<bar>")
  then have b: "0 < b" and x: "\<bar>x\<bar> = of_int a / of_int b"
    by (simp_all add: quotient_of_denom_pos quotient_of_div)
  from assms have "0 < \<bar>x\<bar>" by simp
  with x b have a: "0 < a"
    by (simp add: zero_less_divide_iff)
  let ?k = "bitlen a - bitlen b"
  show ?thesis
  proof (cases "2 powi ?k \<le> \<bar>x\<bar>")
    case False
    with q show ?thesis by (simp add: ilog2_def)
  next
    case True
    with q have i: "ilog2 x = ?k" by (simp add: ilog2_def)
    from a bitlen_bounds [of a] have la: "a < (2::int) ^ nat (bitlen a)"
      by simp
    from b bitlen_bounds [of b] have lb: "(2::int) ^ nat (bitlen b - 1) \<le> b"
      by simp
    have pa: "0 < bitlen a" and pb: "0 < bitlen b"
      using a b bitlen_nonneg [of a] bitlen_nonneg [of b]
        bitlen_eq_zero_iff [of a] bitlen_eq_zero_iff [of b]
      by linarith+
    have "of_int a / of_int b < (2::rat) ^ nat (bitlen a) / 2 ^ nat (bitlen b - 1)"
    proof (rule frac_less)
      show "(0::rat) \<le> of_int a" using a by simp
      have "(of_int a :: rat) < of_int ((2::int) ^ nat (bitlen a))"
        using la by (simp only: of_int_less_iff)
      then show "(of_int a :: rat) < 2 ^ nat (bitlen a)" by simp
      show "(0::rat) < 2 ^ nat (bitlen b - 1)" by simp
      have "of_int ((2::int) ^ nat (bitlen b - 1)) \<le> (of_int b :: rat)"
        using lb by (simp only: of_int_le_iff)
      then show "(2::rat) ^ nat (bitlen b - 1) \<le> of_int b" by simp
    qed
    also have "\<dots> = 2 powi (bitlen a) / 2 powi (bitlen b - 1)"
      using pa pb by (simp add: power_int_def)
    also have "\<dots> = 2 powi (bitlen a - (bitlen b - 1))"
      by (rule power_int_diff [symmetric]) simp
    also have "bitlen a - (bitlen b - 1) = ?k + 1"
      by simp
    finally show ?thesis using i x by simp
  qed
qed

lemma toDouble_underflow:
  assumes "\<bar>x\<bar> < 1 / 2 ^ 1075"
  shows "toDouble x = Fin 0"
proof (cases "x = 0")
  case True
  then show ?thesis by (simp add: toDouble_def flsub_def overflow_def)
next
  case False
  have lt: "(2::rat) powi (ilog2 x) < 2 powi (- 1075)"
    using ilog2_lower [OF False] assms by (simp add: power_int_minus divide_simps)
  have "ilog2 x < - 1075"
  proof (rule ccontr)
    assume "\<not> ilog2 x < - 1075"
    then have "- 1075 \<le> ilog2 x" by simp
    then have "(2::rat) powi (- 1075) \<le> 2 powi (ilog2 x)"
      by (rule power_int_increasing) simp
    with lt show False by simp
  qed
  then have e: "max (ilog2 x - 52) (- 1074) = - 1074"
    by simp
  have "\<bar>x / 2 powi (- 1074)\<bar> = \<bar>x\<bar> * 2 ^ 1074"
    by (simp add: power_int_minus abs_mult)
  also have "\<dots> < (1 / 2 ^ 1075) * 2 ^ 1074"
    using assms by (intro mult_strict_right_mono) simp_all
  also have "\<dots> = 1 / 2"
    by simp
  finally have "round_even (x / 2 powi (- 1074)) = 0"
    by (rule round_even_small)
  with False e have "flsub x = 0"
    by (simp add: flsub_def Let_def)
  then show ?thesis
    by (simp add: toDouble_def overflow_def)
qed


lemma round_even_floor: "\<lfloor>y\<rfloor> \<le> round_even y"
  by (simp add: round_even_def Let_def)

lemma toDouble_overflow:
  assumes "overflow \<le> x"
  shows "toDouble x = PosInf"
proof -
  have o: "overflow = 2 powi 1024"
    by (simp add: overflow_def)
  have pos: "0 < x"
    using assms by (simp add: overflow_def)
  then have nz: "x \<noteq> 0" and ax: "\<bar>x\<bar> = x"
    by simp_all
  let ?k = "ilog2 x"
  have "(2::rat) powi 1024 < 2 powi (?k + 1)"
    using ilog2_upper [OF nz] assms ax o by simp
  have k: "1024 \<le> ?k"
  proof (rule ccontr)
    assume "\<not> 1024 \<le> ?k"
    then have "?k + 1 \<le> 1024" by simp
    then have "(2::rat) powi (?k + 1) \<le> 2 powi 1024"
      by (rule power_int_increasing) simp
    with \<open>(2::rat) powi 1024 < 2 powi (?k + 1)\<close> show False by simp
  qed
  then have e: "max (?k - 52) (- 1074) = ?k - 52"
    by simp
  let ?p = "(2::rat) powi (?k - 52)"
  have p: "0 < ?p" by simp
  have pk: "?p * 2 ^ 52 = 2 powi ?k"
    by (simp add: power_int_diff)
  have "(2::rat) ^ 52 = 2 powi ?k / ?p"
    using pk p by (simp add: field_simps)
  also have "\<dots> \<le> x / ?p"
    using ilog2_lower [OF nz] ax p by (intro divide_right_mono) simp_all
  finally have "of_int (2 ^ 52) \<le> x / ?p"
    by simp
  then have "(2::int) ^ 52 \<le> \<lfloor>x / ?p\<rfloor>"
    by (simp only: le_floor_iff)
  with round_even_floor [of "x / ?p"] have m: "(2::int) ^ 52 \<le> round_even (x / ?p)"
    by linarith
  have f: "flsub x = of_int (round_even (x / ?p)) * ?p"
    using nz e by (simp add: flsub_def Let_def)
  have "(2::rat) powi 1024 \<le> 2 powi ?k"
    using k by (rule power_int_increasing) simp
  also have "\<dots> = of_int (2 ^ 52) * ?p"
    using pk by (simp add: mult.commute)
  also have "\<dots> \<le> of_int (round_even (x / ?p)) * ?p"
  proof (rule mult_right_mono)
    show "(of_int (2 ^ 52) :: rat) \<le> of_int (round_even (x / ?p))"
      using m by (simp only: of_int_le_iff)
    show "0 \<le> ?p" by simp
  qed
  finally have "overflow \<le> flsub x"
    by (simp only: o f)
  then have "overflow \<le> \<bar>flsub x\<bar>"
    by simp
  with pos show ?thesis
    by (simp add: toDouble_def Let_def)
qed

lemma extreme_numbers:
  "numberOf ''1e-400'' = Some (Fin 0)"
  "numberOf ''-1e-400'' = Some (Fin 0)"
  "numberOf ''1e400'' = Some PosInf"
proof -
  have d: "decimal ''400'' = 400" "decimal ''1'' = 1"
    by (simp_all add: decimal_def digitVal_def)
  have small: "\<bar>1 / 10 ^ 400 :: rat\<bar> < 1 / 2 ^ 1075" "\<bar>- (1 / 10 ^ 400) :: rat\<bar> < 1 / 2 ^ 1075"
    by simp_all
  have big: "overflow \<le> (10 ^ 400 :: rat)"
    by (simp add: overflow_def)
  show "numberOf ''1e-400'' = Some (Fin 0)"
    using toDouble_underflow [OF small(1)]
    by (simp add: numberOf_def isDigit_def validInt_def d Let_def)
  show "numberOf ''-1e-400'' = Some (Fin 0)"
    using toDouble_underflow [OF small(2)]
    by (simp add: numberOf_def isDigit_def validInt_def d Let_def)
  show "numberOf ''1e400'' = Some PosInf"
    using toDouble_overflow [OF big]
    by (simp add: numberOf_def isDigit_def validInt_def d Let_def)
qed

lemma extreme_numbers_parsed:
  "JSON_parse ''1e-400'' = Some (JNum (Fin 0))"
  "\<not> truthy (JSON_parse ''1e-400'')"
  "JSON_parse ''1e400'' = Some (JNum PosInf)"
  "truthy (JSON_parse ''1e400'')"
  by (simp_all add: JSON_parse_def tokens_def lexIdle_def isJsonSpace_def isWordChar_def
      wordToken_def extreme_numbers startValue_def pushValue_def truthy_def)

text \<open>
  Every escape \<open>\uXXXX\<close> of a string is accepted and stands for the code unit that its
  four hexadecimal digits name, whatever its value.
\<close>

lemma lexAll_escape:
  assumes "hexVal a = Some x" "hexVal b = Some y" "hexVal c = Some z" "hexVal d = Some w"
  shows "lexAll (ts, LStr acc) (CHR 0x5C # CHR ''u'' # a # b # c # d # cs)
         = lexAll (ts, LStr ((4096 * x + 256 * y + 16 * z + w) # acc)) cs"
  using assms by simp

lemma hex_examples:
  "hexVal CHR ''7'' = Some 7" "hexVal CHR ''3'' = Some 3" "hexVal CHR ''2'' = Some 2"
  "hexVal CHR ''b'' = Some 11"
  by (simp_all add: hexVal_def)

lemma escape_example:
  \<open>JSON_parse (cleanJsonText (''[{"title":"'' @ [CHR 0x5C] @ ''u732b"}]''))
   = Some (JArr [JObj [(units ''title'', JStr [0x732b])]])\<close>
proof -
  have \<open>cleanJsonText (''[{"title":"'' @ [CHR 0x5C] @ ''u732b"}]'')
        = ''[{"title":"'' @ [CHR 0x5C] @ ''u732b"}]''\<close>
    by code_simp
  moreover have \<open>JSON_parse (''[{"title":"'' @ [CHR 0x5C] @ ''u732b"}]'')
        = Some (JArr [JObj [(units ''title'', JStr [0x732b])]])\<close>
    by (simp add: JSON_parse_def tokens_def lexIdle_def isJsonSpace_def isWordChar_def punct_def
        hex_examples startValue_def pushValue_def closeFrame_def takeKey_def units_def)
  ultimately show ?thesis by simp
qed

lemma search_escape_example:
  \<open>map title (projr (articlesOf ''Google Search'' clock (''[{"title":"'' @ [CHR 0x5C] @ ''u732b"}]'')))
   = [Some (JStr [0x732b])]\<close>
  using escape_example by (simp add: articlesOf_def toArticle_def propOf_def units_def)

end
